theory Spec2Isabelle
  imports Complex_Main "HOL-Library.Word"
begin

section \<open>Go values\<close>

text \<open>
  The type layer of the engine (\<^verbatim>\<open>src/sql/type.go\<close>) works on Go values of
  type \<^verbatim>\<open>interface{}\<close>: a value together with its dynamic type. The datatype
  \<open>gval\<close> below has one constructor per dynamic type the code distinguishes.
  Go's \<^verbatim>\<open>int\<close> and \<^verbatim>\<open>uint\<close> are 64 bits wide (a 64-bit platform).
  A floating-point value is modelled by the rational number it denotes; NaN and the
  infinities are outside the model.
\<close>

text \<open>
  Errors are values. The kinds declared in \<^verbatim>\<open>type.go\<close> (and
  \<^verbatim>\<open>ErrUnexpectedRowLength\<close>, \<^verbatim>\<open>ErrInvalidType\<close>, declared elsewhere in the
  package) are constructors; \<open>errorString\<close> is an error made by \<^verbatim>\<open>fmt.Errorf\<close>
  or by a library; \<open>io_EOF\<close> is \<^verbatim>\<open>io.EOF\<close>.
\<close>

datatype gerror =
    ErrTypeNotSupported
  | ErrUnexpectedType nat string
  | ErrUnexpectedRowLength nat nat
  | ErrConvertingToTime string
  | ErrValueNotNil
  | ErrNotTuple
  | ErrInvalidColumnNumber nat nat
  | ErrNotArray
  | ErrConvertToSQL
  | ErrInvalidType
  | io_EOF
  | errorString string

text \<open>
  A call either returns (a value, or an error) or panics. \<open>Panic\<close> is Go's run-time
  panic: it is not a returned error, and it unwinds through every caller of this file
  (none of them recovers).
\<close>

datatype 'a res = Ok 'a | Err gerror | Panic string

text \<open>\<^verbatim>\<open>time.Time\<close>: an instant (seconds and nanoseconds since the Unix epoch) and
  the offset of its location east of UTC, in seconds.\<close>

record gotime =
  unix :: int
  nsec :: int
  zone :: int

text \<open>
  Modelled from the spec: the \<^verbatim>\<open>Generator\<close> interface, declared outside
  \<^verbatim>\<open>src/\<close> (``a producer that yields successive elements and signals
  end-of-input, and that must be explicitly released''). A producer is the list of the
  answers its next calls of \<^verbatim>\<open>Next\<close> will give (a value or an error; when the list
  is used up, \<^verbatim>\<open>io.EOF\<close>), the number of times \<^verbatim>\<open>Close\<close> has been called on
  it, and the error its \<^verbatim>\<open>Close\<close> returns, if any; \<open>dyn_type\<close> is the name of the
  concrete type that implements the interface.
\<close>

datatype 'v Generator =
  Generator (dyn_type: string) (script: "(gerror + 'v) list") (closes: nat)
    (close_result: "gerror option")

datatype gval =
    VNil
  | VBool bool
  | VInt "64 word"
  | VInt8 "8 word"
  | VInt16 "16 word"
  | VInt32 "32 word"
  | VInt64 "64 word"
  | VUint "64 word"
  | VUint8 "8 word"
  | VUint16 "16 word"
  | VUint32 "32 word"
  | VUint64 "64 word"
  | VFloat32 rat
  | VFloat64 rat
  | VString string
  | VBytes string
  | VTime gotime
  | VDuration "64 word"
  | VSlice "gval list"
  | VGenerator "gval Generator"
  | VNullT
  | VOther string

text \<open>
  \<open>VSlice\<close> is a \<^verbatim>\<open>[]interface{}\<close>, \<open>VBytes\<close> a \<^verbatim>\<open>[]byte\<close> (a HOL
  character is a byte, so a byte slice and a Go string have the same content type),
  \<open>VNullT\<close> the struct \<^verbatim>\<open>nullT{}\<close> (the Null type itself, used as a value), and
  \<open>VOther n\<close> a value of any other dynamic type, named \<open>n\<close>.
\<close>

subsection \<open>Operations of the Go language and of package time\<close>

text \<open>\<^verbatim>\<open>Next\<close> and \<^verbatim>\<open>Close\<close> of a producer: the answer and the producer after the call.\<close>

fun Next :: "gval Generator \<Rightarrow> (gerror + gval) \<times> gval Generator" where
  "Next (Generator ty [] n c) = (Inl io_EOF, Generator ty [] n c)"
| "Next (Generator ty (a # as) n c) = (a, Generator ty as n c)"

fun Close :: "gval Generator \<Rightarrow> gerror option \<times> gval Generator" where
  "Close (Generator ty as n c) = (c, Generator ty as (Suc n) c)"

text \<open>The type assertion \<^verbatim>\<open>v.(float64)\<close>: \<open>None\<close> is the run-time panic of a failed
  assertion.\<close>

fun assert_float64 :: "gval \<Rightarrow> rat option" where
  "assert_float64 (VFloat64 f) = Some f"
| "assert_float64 _ = None"

text \<open>The number that a value of an integer type denotes, and the number that a value
  of a float type denotes; \<open>None\<close> for a value of another type.\<close>

fun int_value :: "gval \<Rightarrow> int option" where
  "int_value (VInt x) = Some (sint x)"
| "int_value (VInt8 x) = Some (sint x)"
| "int_value (VInt16 x) = Some (sint x)"
| "int_value (VInt32 x) = Some (sint x)"
| "int_value (VInt64 x) = Some (sint x)"
| "int_value (VUint x) = Some (uint x)"
| "int_value (VUint8 x) = Some (uint x)"
| "int_value (VUint16 x) = Some (uint x)"
| "int_value (VUint32 x) = Some (uint x)"
| "int_value (VUint64 x) = Some (uint x)"
| "int_value v = None"

fun float_value :: "gval \<Rightarrow> rat option" where
  "float_value (VFloat32 f) = Some f"
| "float_value (VFloat64 f) = Some f"
| "float_value v = None"

text \<open>\<^verbatim>\<open>math.Round\<close>: the nearest integer, halves away from zero.\<close>

definition math_Round :: "rat \<Rightarrow> rat" where
  "math_Round x = (if 0 \<le> x then of_int \<lfloor>x + 1/2\<rfloor> else - of_int \<lfloor>- x + 1/2\<rfloor>)"

text \<open>
  The conversion \<^verbatim>\<open>int(f)\<close> (and \<^verbatim>\<open>int64(f)\<close>) of a float: the fraction is
  discarded (truncation towards zero). When the result does not fit the language leaves
  it to the implementation; the value here is the one of amd64.
\<close>

definition trunc_rat :: "rat \<Rightarrow> int" where
  "trunc_rat x = (if 0 \<le> x then \<lfloor>x\<rfloor> else - \<lfloor>- x\<rfloor>)"

definition float_to_int64 :: "rat \<Rightarrow> 64 word" where
  "float_to_int64 x =
     (if - (2 ^ 63) \<le> trunc_rat x \<and> trunc_rat x < 2 ^ 63 then word_of_int (trunc_rat x)
      else word_of_int (- (2 ^ 63)))"

text \<open>\<^verbatim>\<open>t.Unix()\<close>, \<^verbatim>\<open>t.UnixNano()\<close> (both \<^verbatim>\<open>int64\<close>), \<^verbatim>\<open>t.UTC()\<close> and
  \<^verbatim>\<open>time.Unix(s, 0)\<close>.\<close>

definition Unix :: "gotime \<Rightarrow> 64 word" where
  "Unix t = word_of_int (unix t)"

definition UnixNano :: "gotime \<Rightarrow> 64 word" where
  "UnixNano t = word_of_int (unix t * 1000000000 + nsec t)"

definition UTC :: "gotime \<Rightarrow> gotime" where
  "UTC t = t\<lparr>zone := 0\<rparr>"

text \<open>\<^verbatim>\<open>time.Unix\<close> gives a time in the local zone, whose offset is the parameter
  \<open>local\<close>.\<close>

definition time_Unix :: "int \<Rightarrow> 64 word \<Rightarrow> gotime" where
  "time_Unix local s = \<lparr>unix = sint s, nsec = 0, zone = local\<rparr>"

section \<open>The Boolean type\<close>

text \<open>
  \<^verbatim>\<open>booleanT.Convert\<close>. In a case of the type switch that lists several types the
  variable \<^verbatim>\<open>b\<close> keeps the static type \<^verbatim>\<open>interface{}\<close>, so \<^verbatim>\<open>b != 0\<close>
  compares two interface values, \<^verbatim>\<open>b\<close> and the constant \<^verbatim>\<open>0\<close> boxed with its
  default type \<^verbatim>\<open>int\<close>: they are equal when the dynamic types and the values are
  equal, which is the equality of \<open>gval\<close>. In the case of the two float types the code
  asserts \<^verbatim>\<open>v.(float64)\<close>.
\<close>

definition booleanT_int_case :: "gval \<Rightarrow> gval res" where
  "booleanT_int_case b = (if b \<noteq> VInt 0 then Ok (VBool True) else Ok (VBool False))"

definition booleanT_float_case :: "gval \<Rightarrow> gval res" where
  "booleanT_float_case v =
     (case assert_float64 v of
        None \<Rightarrow> Panic ''interface conversion: interface {} is float32, not float64''
      | Some f \<Rightarrow>
          if float_to_int64 (math_Round f) \<noteq> 0 then Ok (VBool True) else Ok (VBool False))"

fun booleanT_Convert :: "gval \<Rightarrow> gval res" where
  "booleanT_Convert (VBool b) = Ok (VBool b)"
| "booleanT_Convert (VInt x) = booleanT_int_case (VInt x)"
| "booleanT_Convert (VInt64 x) = booleanT_int_case (VInt64 x)"
| "booleanT_Convert (VInt32 x) = booleanT_int_case (VInt32 x)"
| "booleanT_Convert (VInt16 x) = booleanT_int_case (VInt16 x)"
| "booleanT_Convert (VInt8 x) = booleanT_int_case (VInt8 x)"
| "booleanT_Convert (VUint x) = booleanT_int_case (VUint x)"
| "booleanT_Convert (VUint64 x) = booleanT_int_case (VUint64 x)"
| "booleanT_Convert (VUint32 x) = booleanT_int_case (VUint32 x)"
| "booleanT_Convert (VUint16 x) = booleanT_int_case (VUint16 x)"
| "booleanT_Convert (VUint8 x) = booleanT_int_case (VUint8 x)"
| "booleanT_Convert (VDuration d) = (if d \<noteq> 0 then Ok (VBool True) else Ok (VBool False))"
| "booleanT_Convert (VTime t) = (if UnixNano t \<noteq> 0 then Ok (VBool True) else Ok (VBool False))"
| "booleanT_Convert (VFloat32 f) = booleanT_float_case (VFloat32 f)"
| "booleanT_Convert (VFloat64 f) = booleanT_float_case (VFloat64 f)"
| "booleanT_Convert (VString s) = Err (errorString ''unable to cast string to bool'')"
| "booleanT_Convert VNil = Err (errorString ''unable to cast nil to bool'')"
| "booleanT_Convert v = Err (errorString ''unable to cast value to bool'')"

text \<open>
  The reference definition of the specification, in its words: a boolean passes through;
  an integer of any kind is true iff it is nonzero; a duration is true iff its magnitude
  is nonzero; a timestamp is true iff its epoch value is nonzero; a float of either width
  is true iff it rounds to a nonzero integer; text, the absence of a value and every
  other input fail; the operation always returns.
\<close>

fun booleanT_Convert_spec :: "gval \<Rightarrow> gval res" where
  "booleanT_Convert_spec (VBool b) = Ok (VBool b)"
| "booleanT_Convert_spec (VInt x) = Ok (VBool (x \<noteq> 0))"
| "booleanT_Convert_spec (VInt64 x) = Ok (VBool (x \<noteq> 0))"
| "booleanT_Convert_spec (VInt32 x) = Ok (VBool (x \<noteq> 0))"
| "booleanT_Convert_spec (VInt16 x) = Ok (VBool (x \<noteq> 0))"
| "booleanT_Convert_spec (VInt8 x) = Ok (VBool (x \<noteq> 0))"
| "booleanT_Convert_spec (VUint x) = Ok (VBool (x \<noteq> 0))"
| "booleanT_Convert_spec (VUint64 x) = Ok (VBool (x \<noteq> 0))"
| "booleanT_Convert_spec (VUint32 x) = Ok (VBool (x \<noteq> 0))"
| "booleanT_Convert_spec (VUint16 x) = Ok (VBool (x \<noteq> 0))"
| "booleanT_Convert_spec (VUint8 x) = Ok (VBool (x \<noteq> 0))"
| "booleanT_Convert_spec (VDuration d) = Ok (VBool (d \<noteq> 0))"
| "booleanT_Convert_spec (VTime t) = Ok (VBool (UnixNano t \<noteq> 0))"
| "booleanT_Convert_spec (VFloat32 f) = Ok (VBool (math_Round f \<noteq> 0))"
| "booleanT_Convert_spec (VFloat64 f) = Ok (VBool (math_Round f \<noteq> 0))"
| "booleanT_Convert_spec (VString s) = Err (errorString ''unable to cast string to bool'')"
| "booleanT_Convert_spec VNil = Err (errorString ''unable to cast nil to bool'')"
| "booleanT_Convert_spec v = Err (errorString ''unable to cast value to bool'')"

section \<open>Libraries\<close>

text \<open>
  The code calls libraries that are not part of the repository: Go's standard
  library (\<^verbatim>\<open>time.Parse\<close>, \<^verbatim>\<open>Time.Format\<close>, \<^verbatim>\<open>encoding/json\<close>,
  \<^verbatim>\<open>fmt.Stringer\<close>) and \<^verbatim>\<open>github.com/spf13/cast\<close>. Their functions are the
  fields of a record that every operation of the type layer takes as its first argument:
  what is proved for every \<open>L\<close> holds whatever these libraries compute. The functions
  return a value or an error and do not panic.
  \<^item> \<open>fmt_Stringer v\<close> is \<open>Some s\<close> when the dynamic type of \<open>v\<close> implements
    \<^verbatim>\<open>fmt.Stringer\<close> and \<^verbatim>\<open>v.String()\<close> is \<open>s\<close>.
  \<^item> \<open>time_Parse layout value\<close> and \<open>time_Format t layout\<close> are \<^verbatim>\<open>time.Parse\<close> and
    \<^verbatim>\<open>t.Format\<close>; \<open>time_Local\<close> is the offset of the local zone, in which
    \<^verbatim>\<open>time.Unix\<close> makes its result.
\<close>

record golib =
  cast_ToInt32E :: "gval \<Rightarrow> gerror + 32 word"
  cast_ToInt64E :: "gval \<Rightarrow> gerror + 64 word"
  cast_ToUint32E :: "gval \<Rightarrow> gerror + 32 word"
  cast_ToUint64E :: "gval \<Rightarrow> gerror + 64 word"
  cast_ToFloat32E :: "gval \<Rightarrow> gerror + rat"
  cast_ToFloat64E :: "gval \<Rightarrow> gerror + rat"
  cast_ToStringE :: "gval \<Rightarrow> gerror + string"
  fmt_Stringer :: "gval \<Rightarrow> string option"
  time_Parse :: "string \<Rightarrow> string \<Rightarrow> gerror + gotime"
  time_Format :: "gotime \<Rightarrow> string \<Rightarrow> string"
  time_Local :: int
  json_Marshal :: "gval \<Rightarrow> gerror + string"
  json_Unmarshal :: "string \<Rightarrow> gerror + gval"

text \<open>A library call whose result the code returns as it is:
  \<^verbatim>\<open>return cast.ToInt32E(v)\<close>.\<close>

fun returned :: "('a \<Rightarrow> gval) \<Rightarrow> gerror + 'a \<Rightarrow> gval res" where
  "returned box (Inl err) = Err err"
| "returned box (Inr x) = Ok (box x)"

section \<open>Types\<close>

text \<open>The wire tags of \<^verbatim>\<open>sqltypes\<close> (\<^verbatim>\<open>query.Type\<close>) that the file names.\<close>

datatype query_Type =
    sqltypes_Null
  | sqltypes_Int8 | sqltypes_Uint8 | sqltypes_Int16 | sqltypes_Uint16
  | sqltypes_Int32 | sqltypes_Uint32 | sqltypes_Int64 | sqltypes_Uint64
  | sqltypes_Float32 | sqltypes_Float64
  | sqltypes_Timestamp | sqltypes_Date
  | sqltypes_Text | sqltypes_VarChar | sqltypes_Bit | sqltypes_TypeJSON | sqltypes_Blob
  | sqltypes_Expression

text \<open>\<^verbatim>\<open>sqltypes.Value\<close>, \<^verbatim>\<open>sqltypes.MakeTrusted\<close> and \<^verbatim>\<open>sqltypes.NULL\<close>.\<close>

record sqltypes_Value =
  value_typ :: query_Type
  value_val :: string

definition MakeTrusted :: "query_Type \<Rightarrow> string \<Rightarrow> sqltypes_Value" where
  "MakeTrusted t bs = \<lparr>value_typ = t, value_val = bs\<rparr>"

definition sqltypes_NULL :: sqltypes_Value where
  "sqltypes_NULL = \<lparr>value_typ = sqltypes_Null, value_val = []\<rparr>"

text \<open>
  The implementations of the interface \<^verbatim>\<open>Type\<close> in \<^verbatim>\<open>type.go\<close>:
  \<^verbatim>\<open>numberT\<close> is a struct holding a wire tag, \<^verbatim>\<open>tupleT\<close> a slice of types,
  \<^verbatim>\<open>arrayT\<close> a struct holding the underlying type.
\<close>

datatype Type =
    nullT
  | numberT query_Type
  | timestampT
  | dateT
  | textT
  | booleanT
  | blobT
  | jsonT
  | tupleT "Type list"
  | arrayT Type

definition Null :: Type where "Null = nullT"
definition Int8 :: Type where "Int8 = numberT sqltypes_Int8"
definition Uint8 :: Type where "Uint8 = numberT sqltypes_Uint8"
definition Int16 :: Type where "Int16 = numberT sqltypes_Int16"
definition Uint16 :: Type where "Uint16 = numberT sqltypes_Uint16"
definition Int32 :: Type where "Int32 = numberT sqltypes_Int32"
definition Int64 :: Type where "Int64 = numberT sqltypes_Int64"
definition Uint32 :: Type where "Uint32 = numberT sqltypes_Uint32"
definition Uint64 :: Type where "Uint64 = numberT sqltypes_Uint64"
definition Float32 :: Type where "Float32 = numberT sqltypes_Float32"
definition Float64 :: Type where "Float64 = numberT sqltypes_Float64"
definition Timestamp :: Type where "Timestamp = timestampT"
definition Date :: Type where "Date = dateT"
definition Text :: Type where "Text = textT"
definition Boolean :: Type where "Boolean = booleanT"
definition JSON :: Type where "JSON = jsonT"
definition Blob :: Type where "Blob = blobT"

definition Tuple :: "Type list \<Rightarrow> Type" where
  "Tuple types = tupleT types"

definition Array :: "Type \<Rightarrow> Type" where
  "Array underlying = arrayT underlying"

text \<open>The ten numeric variants.\<close>

definition numeric_variants :: "Type list" where
  "numeric_variants =
     [Int8, Uint8, Int16, Uint16, Int32, Uint32, Int64, Uint64, Float32, Float64]"

subsection \<open>Classification predicates\<close>

definition IsSigned :: "Type \<Rightarrow> bool" where
  "IsSigned t \<longleftrightarrow> t = Int32 \<or> t = Int64"

definition IsUnsigned :: "Type \<Rightarrow> bool" where
  "IsUnsigned t \<longleftrightarrow> t = Uint32 \<or> t = Uint64"

definition IsInteger :: "Type \<Rightarrow> bool" where
  "IsInteger t \<longleftrightarrow> IsSigned t \<or> IsUnsigned t"

definition IsDecimal :: "Type \<Rightarrow> bool" where
  "IsDecimal t \<longleftrightarrow> t = Float32 \<or> t = Float64"

definition IsNumber :: "Type \<Rightarrow> bool" where
  "IsNumber t \<longleftrightarrow> IsInteger t \<or> IsDecimal t"

section \<open>Convert\<close>

subsection \<open>Null\<close>

definition nullT_Convert :: "gval \<Rightarrow> gval res" where
  "nullT_Convert v = (if v \<noteq> VNil then Err ErrValueNotNil else Ok VNil)"

subsection \<open>Numbers\<close>

text \<open>\<^verbatim>\<open>if ti, ok := v.(time.Time); ok { v = ti.Unix() }\<close>\<close>

fun unix_if_time :: "gval \<Rightarrow> gval" where
  "unix_if_time (VTime ti) = VInt64 (Unix ti)"
| "unix_if_time v = v"

fun numberT_Convert_switch :: "golib \<Rightarrow> query_Type \<Rightarrow> gval \<Rightarrow> gval res" where
  "numberT_Convert_switch L sqltypes_Int32 v = returned VInt32 (cast_ToInt32E L v)"
| "numberT_Convert_switch L sqltypes_Int64 v = returned VInt64 (cast_ToInt64E L v)"
| "numberT_Convert_switch L sqltypes_Uint32 v = returned VUint32 (cast_ToUint32E L v)"
| "numberT_Convert_switch L sqltypes_Uint64 v = returned VUint64 (cast_ToUint64E L v)"
| "numberT_Convert_switch L sqltypes_Float32 v = returned VFloat32 (cast_ToFloat32E L v)"
| "numberT_Convert_switch L sqltypes_Float64 v = returned VFloat64 (cast_ToFloat64E L v)"
| "numberT_Convert_switch L _ v = Err ErrInvalidType"

definition numberT_Convert :: "golib \<Rightarrow> query_Type \<Rightarrow> gval \<Rightarrow> gval res" where
  "numberT_Convert L t v = numberT_Convert_switch L t (unix_if_time v)"

subsection \<open>Timestamp and Date\<close>

definition TimestampLayout :: string where
  "TimestampLayout = ''2006-01-02 15:04:05''"

definition time_RFC3339 :: string where
  "time_RFC3339 = ''2006-01-02T15:04:05Z07:00''"

definition TimestampLayouts :: "string list" where
  "TimestampLayouts = [''2006-01-02'', time_RFC3339, ''20060102150405'', ''20060102'']"

definition DateLayout :: string where
  "DateLayout = ''2006-01-02''"

text \<open>The loop over \<^verbatim>\<open>TimestampLayouts\<close>: the time of the first layout that parses
  (\<^verbatim>\<open>failed = false; break\<close>), \<open>None\<close> when the loop ends with \<^verbatim>\<open>failed\<close> still
  true.\<close>

fun parse_layouts :: "golib \<Rightarrow> string list \<Rightarrow> string \<Rightarrow> gotime option" where
  "parse_layouts L [] value = None"
| "parse_layouts L (fmt # fmts) value =
     (case time_Parse L fmt value of
        Inr t2 \<Rightarrow> Some t2
      | Inl err2 \<Rightarrow> parse_layouts L fmts value)"

text \<open>The default case of both conversions: \<^verbatim>\<open>ts, err := Int64.Convert(v)\<close>, then
  \<^verbatim>\<open>time.Unix(ts.(int64), 0)\<close>.\<close>

definition time_of_number :: "golib \<Rightarrow> gval \<Rightarrow> gotime res" where
  "time_of_number L v =
     (case numberT_Convert L sqltypes_Int64 v of
        Err err \<Rightarrow> Err ErrInvalidType
      | Panic p \<Rightarrow> Panic p
      | Ok ts \<Rightarrow>
          (case ts of
             VInt64 s \<Rightarrow> Ok (time_Unix (time_Local L) s)
           | _ \<Rightarrow> Panic ''interface conversion: interface {} is not int64''))"

fun timestampT_Convert :: "golib \<Rightarrow> gval \<Rightarrow> gval res" where
  "timestampT_Convert L (VTime value) = Ok (VTime (UTC value))"
| "timestampT_Convert L (VString value) =
     (case time_Parse L TimestampLayout value of
        Inr t \<Rightarrow> Ok (VTime (UTC t))
      | Inl err \<Rightarrow>
          (case parse_layouts L TimestampLayouts value of
             None \<Rightarrow> Err (ErrConvertingToTime value)
           | Some t2 \<Rightarrow> Ok (VTime (UTC t2))))"
| "timestampT_Convert L v =
     (case time_of_number L v of
        Ok t \<Rightarrow> Ok (VTime (UTC t))
      | Err err \<Rightarrow> Err err
      | Panic p \<Rightarrow> Panic p)"

text \<open>
  \<^verbatim>\<open>truncateDate\<close> is \<^verbatim>\<open>t.Truncate(24 * time.Hour)\<close>: the time rounded down to a
  multiple of 24 hours since Go's zero time, which is 62135596800 seconds before the Unix
  epoch. The location is kept.
\<close>

definition truncateDate :: "gotime \<Rightarrow> gotime" where
  "truncateDate t =
     (let r = (unix t + 62135596800) mod 86400
      in t\<lparr>unix := unix t - r, nsec := 0\<rparr>)"

fun dateT_Convert :: "golib \<Rightarrow> gval \<Rightarrow> gval res" where
  "dateT_Convert L (VTime value) = Ok (VTime (UTC (truncateDate value)))"
| "dateT_Convert L (VString value) =
     (case time_Parse L DateLayout value of
        Inl err \<Rightarrow> Err (ErrConvertingToTime value)
      | Inr t \<Rightarrow> Ok (VTime (UTC (truncateDate t))))"
| "dateT_Convert L v =
     (case time_of_number L v of
        Ok t \<Rightarrow> Ok (VTime (UTC (truncateDate t)))
      | Err err \<Rightarrow> Err err
      | Panic p \<Rightarrow> Panic p)"

subsection \<open>Text, Blob, JSON\<close>

definition textT_Convert :: "golib \<Rightarrow> gval \<Rightarrow> gval res" where
  "textT_Convert L v =
     (case cast_ToStringE L v of
        Inl err \<Rightarrow> Err ErrConvertToSQL
      | Inr val \<Rightarrow> Ok (VString val))"

fun blobT_Convert :: "golib \<Rightarrow> gval \<Rightarrow> gval res" where
  "blobT_Convert L VNil = Ok (VBytes [])"
| "blobT_Convert L (VBytes value) = Ok (VBytes value)"
| "blobT_Convert L (VString value) = Ok (VBytes value)"
| "blobT_Convert L v =
     (case fmt_Stringer L v of
        Some s \<Rightarrow> Ok (VBytes s)
      | None \<Rightarrow> Err ErrInvalidType)"

fun jsonT_Convert :: "golib \<Rightarrow> gval \<Rightarrow> gval res" where
  "jsonT_Convert L (VString v) =
     (case json_Unmarshal L v of
        Inl err \<Rightarrow> returned VBytes (json_Marshal L (VString v))
      | Inr doc \<Rightarrow> returned VBytes (json_Marshal L doc))"
| "jsonT_Convert L v = returned VBytes (json_Marshal L v)"

subsection \<open>Arrays: the two loops\<close>

text \<open>The loop over a \<^verbatim>\<open>[]interface{}\<close>; \<open>conv\<close> is
  \<^verbatim>\<open>t.underlying.Convert\<close>.\<close>

fun arrayT_Convert_slice :: "(gval \<Rightarrow> gval res) \<Rightarrow> gval list \<Rightarrow> gval list res" where
  "arrayT_Convert_slice conv [] = Ok []"
| "arrayT_Convert_slice conv (v # vs) =
     (case conv v of
        Err err \<Rightarrow> Err err
      | Panic p \<Rightarrow> Panic p
      | Ok c \<Rightarrow>
          (case arrayT_Convert_slice conv vs of
             Ok cs \<Rightarrow> Ok (c # cs)
           | Err err \<Rightarrow> Err err
           | Panic p \<Rightarrow> Panic p))"

text \<open>
  The loop over a \<^verbatim>\<open>Generator\<close>: \<^verbatim>\<open>for { val, err := v.Next(); ... }\<close>. It
  returns the values collected when the producer answers \<^verbatim>\<open>io.EOF\<close> (the
  \<^verbatim>\<open>break\<close>), and returns the error of \<^verbatim>\<open>Next\<close> or of the element's conversion
  (the two \<^verbatim>\<open>return nil, err\<close> inside the loop) otherwise; with the result comes the
  producer as the loop leaves it.
\<close>

function arrayT_Convert_loop ::
  "(gval \<Rightarrow> gval res) \<Rightarrow> gval Generator \<Rightarrow> gval list \<Rightarrow> gval list res \<times> gval Generator"
where
  "arrayT_Convert_loop conv g values =
     (case Next g of
        (Inl err, g') \<Rightarrow> if err = io_EOF then (Ok values, g') else (Err err, g')
      | (Inr val, g') \<Rightarrow>
          (case conv val of
             Err err \<Rightarrow> (Err err, g')
           | Panic p \<Rightarrow> (Panic p, g')
           | Ok val' \<Rightarrow> arrayT_Convert_loop conv g' (values @ [val'])))"
  by pat_completeness auto
termination
proof (relation "measure (\<lambda>(conv, g, values). length (script g))")
  show "wf (measure (\<lambda>(conv, g, values). length (script g)))" by simp
next
  fix conv :: "gval \<Rightarrow> gval res" and g :: "gval Generator" and acc :: "gval list"
    and x g' e e'
  assume "(x, g') = Next g" and "x = Inr e"
  then have "length (script g') < length (script g)"
    by (cases g; cases "script g") auto
  then show "((conv, g', acc @ [e']), (conv, g, acc))
      \<in> measure (\<lambda>(conv, g, values). length (script g))"
    by simp
qed

text \<open>
  The \<^verbatim>\<open>Generator\<close> case of \<^verbatim>\<open>arrayT.Convert\<close>: the loop, then
  \<^verbatim>\<open>if err := v.Close(); err != nil { return nil, err }\<close> and
  \<^verbatim>\<open>return values, nil\<close>. The second component is the producer after the call.
\<close>

definition arrayT_Convert_Generator ::
  "(gval \<Rightarrow> gval res) \<Rightarrow> gval Generator \<Rightarrow> gval res \<times> gval Generator" where
  "arrayT_Convert_Generator conv g =
     (case arrayT_Convert_loop conv g [] of
        (Err err, g') \<Rightarrow> (Err err, g')
      | (Panic p, g') \<Rightarrow> (Panic p, g')
      | (Ok values, g') \<Rightarrow>
          (case Close g' of
             (Some err, g'') \<Rightarrow> (Err err, g'')
           | (None, g'') \<Rightarrow> (Ok (VSlice values), g'')))"

subsection \<open>Convert of every type\<close>

fun Convert :: "golib \<Rightarrow> Type \<Rightarrow> gval \<Rightarrow> gval res"
  and tupleT_Convert_loop :: "golib \<Rightarrow> Type list \<Rightarrow> gval list \<Rightarrow> gval list res"
where
  "Convert L nullT v = nullT_Convert v"
| "Convert L (numberT t) v = numberT_Convert L t v"
| "Convert L timestampT v = timestampT_Convert L v"
| "Convert L dateT v = dateT_Convert L v"
| "Convert L textT v = textT_Convert L v"
| "Convert L booleanT v = booleanT_Convert v"
| "Convert L blobT v = blobT_Convert L v"
| "Convert L jsonT v = jsonT_Convert L v"
| "Convert L (tupleT t) v =
     (case v of
        VSlice vals \<Rightarrow>
          if length vals \<noteq> length t
          then Err (ErrInvalidColumnNumber (length t) (length vals))
          else (case tupleT_Convert_loop L t vals of
                  Ok result \<Rightarrow> Ok (VSlice result)
                | Err err \<Rightarrow> Err err
                | Panic p \<Rightarrow> Panic p)
      | _ \<Rightarrow> Err ErrNotTuple)"
| "Convert L (arrayT underlying) v =
     (case v of
        VSlice vs \<Rightarrow>
          (case arrayT_Convert_slice (\<lambda>x. Convert L underlying x) vs of
             Ok result \<Rightarrow> Ok (VSlice result)
           | Err err \<Rightarrow> Err err
           | Panic p \<Rightarrow> Panic p)
      | VGenerator g \<Rightarrow> fst (arrayT_Convert_Generator (\<lambda>x. Convert L underlying x) g)
      | _ \<Rightarrow> Err ErrNotArray)"
| "tupleT_Convert_loop L [] vals = Ok []"
| "tupleT_Convert_loop L (typ # t) vals =
     (case vals of
        [] \<Rightarrow> Panic ''index out of range''
      | x # xs \<Rightarrow>
          (case Convert L typ x of
             Err err \<Rightarrow> Err err
           | Panic p \<Rightarrow> Panic p
           | Ok c \<Rightarrow>
               (case tupleT_Convert_loop L t xs of
                  Ok cs \<Rightarrow> Ok (c # cs)
                | Err err \<Rightarrow> Err err
                | Panic p \<Rightarrow> Panic p)))"

section \<open>Compare\<close>

text \<open>\<^verbatim>\<open>Before\<close> and \<^verbatim>\<open>After\<close> of package time compare instants.\<close>

definition Before :: "gotime \<Rightarrow> gotime \<Rightarrow> bool" where
  "Before a b \<longleftrightarrow> unix a < unix b \<or> (unix a = unix b \<and> nsec a < nsec b)"

definition After :: "gotime \<Rightarrow> gotime \<Rightarrow> bool" where
  "After a b \<longleftrightarrow> Before b a"

text \<open>\<^verbatim>\<open>strings.Compare\<close> and \<^verbatim>\<open>bytes.Compare\<close>: the lexicographic order of the
  bytes.\<close>

fun bytes_less :: "string \<Rightarrow> string \<Rightarrow> bool" where
  "bytes_less [] [] = False"
| "bytes_less [] (y # ys) = True"
| "bytes_less (x # xs) [] = False"
| "bytes_less (x # xs) (y # ys) =
     ((of_char x :: nat) < of_char y \<or> (x = y \<and> bytes_less xs ys))"

definition bytes_Compare :: "string \<Rightarrow> string \<Rightarrow> int" where
  "bytes_Compare a b = (if a = b then 0 else if bytes_less a b then - 1 else 1)"

definition nullT_Compare :: "gval \<Rightarrow> gval \<Rightarrow> int res" where
  "nullT_Compare a b = Ok 0"

definition compareSigned :: "golib \<Rightarrow> gval \<Rightarrow> gval \<Rightarrow> int res" where
  "compareSigned L a b =
     (case cast_ToInt64E L a of
        Inl err \<Rightarrow> Err err
      | Inr ca \<Rightarrow>
          (case cast_ToInt64E L b of
             Inl err \<Rightarrow> Err err
           | Inr cb \<Rightarrow>
               if ca = cb then Ok 0
               else if sint ca < sint cb then Ok (- 1)
               else Ok 1))"

definition compareUnsigned :: "golib \<Rightarrow> gval \<Rightarrow> gval \<Rightarrow> int res" where
  "compareUnsigned L a b =
     (case cast_ToUint64E L a of
        Inl err \<Rightarrow> Err err
      | Inr ca \<Rightarrow>
          (case cast_ToUint64E L b of
             Inl err \<Rightarrow> Err err
           | Inr cb \<Rightarrow>
               if ca = cb then Ok 0
               else if uint ca < uint cb then Ok (- 1)
               else Ok 1))"

definition numberT_Compare :: "golib \<Rightarrow> query_Type \<Rightarrow> gval \<Rightarrow> gval \<Rightarrow> int res" where
  "numberT_Compare L t a b =
     (if IsUnsigned (numberT t) then compareUnsigned L a b else compareSigned L a b)"

text \<open>The type assertions \<^verbatim>\<open>a.(time.Time)\<close>, \<^verbatim>\<open>a.(string)\<close>,
  \<^verbatim>\<open>a.([]byte)\<close> and \<^verbatim>\<open>a.([]interface{})\<close>; \<open>None\<close> is the panic on a value
  of another dynamic type.\<close>

fun assert_Time :: "gval \<Rightarrow> gotime option" where
  "assert_Time (VTime t) = Some t"
| "assert_Time v = None"

fun assert_string :: "gval \<Rightarrow> string option" where
  "assert_string (VString s) = Some s"
| "assert_string v = None"

fun assert_bytes :: "gval \<Rightarrow> string option" where
  "assert_bytes (VBytes s) = Some s"
| "assert_bytes v = None"

fun assert_slice :: "gval \<Rightarrow> gval list option" where
  "assert_slice (VSlice vs) = Some vs"
| "assert_slice v = None"

definition timestampT_Compare :: "gval \<Rightarrow> gval \<Rightarrow> int res" where
  "timestampT_Compare a b =
     (case assert_Time a of
        None \<Rightarrow> Panic ''interface conversion: interface {} is not time.Time''
      | Some av \<Rightarrow>
          (case assert_Time b of
             None \<Rightarrow> Panic ''interface conversion: interface {} is not time.Time''
           | Some bv \<Rightarrow>
               if Before av bv then Ok (- 1) else if After av bv then Ok 1 else Ok 0))"

definition dateT_Compare :: "gval \<Rightarrow> gval \<Rightarrow> int res" where
  "dateT_Compare a b =
     (case assert_Time a of
        None \<Rightarrow> Panic ''interface conversion: interface {} is not time.Time''
      | Some ta \<Rightarrow>
          (case assert_Time b of
             None \<Rightarrow> Panic ''interface conversion: interface {} is not time.Time''
           | Some tb \<Rightarrow>
               (let av = truncateDate ta; bv = truncateDate tb
                in if Before av bv then Ok (- 1) else if After av bv then Ok 1 else Ok 0)))"

definition textT_Compare :: "gval \<Rightarrow> gval \<Rightarrow> int res" where
  "textT_Compare a b =
     (case assert_string a of
        None \<Rightarrow> Panic ''interface conversion: interface {} is not string''
      | Some sa \<Rightarrow>
          (case assert_string b of
             None \<Rightarrow> Panic ''interface conversion: interface {} is not string''
           | Some sb \<Rightarrow> Ok (bytes_Compare sa sb)))"

definition blobT_Compare :: "gval \<Rightarrow> gval \<Rightarrow> int res" where
  "blobT_Compare a b =
     (case assert_bytes a of
        None \<Rightarrow> Panic ''interface conversion: interface {} is not []uint8''
      | Some sa \<Rightarrow>
          (case assert_bytes b of
             None \<Rightarrow> Panic ''interface conversion: interface {} is not []uint8''
           | Some sb \<Rightarrow> Ok (bytes_Compare sa sb)))"

definition jsonT_Compare :: "gval \<Rightarrow> gval \<Rightarrow> int res" where
  "jsonT_Compare a b =
     (case assert_bytes a of
        None \<Rightarrow> Panic ''interface conversion: interface {} is not []uint8''
      | Some sa \<Rightarrow>
          (case assert_bytes b of
             None \<Rightarrow> Panic ''interface conversion: interface {} is not []uint8''
           | Some sb \<Rightarrow> Ok (bytes_Compare sa sb)))"

text \<open>
  \<^verbatim>\<open>booleanT.Compare\<close> compares interface values with \<^verbatim>\<open>==\<close>: values of
  different dynamic types are different, and two values of the same slice type make the
  comparison panic. (Two values \<open>VOther\<close> or two producers are compared here as HOL
  values; whether Go can compare them depends on their concrete types.)
\<close>

definition uncomparable :: "gval \<Rightarrow> gval \<Rightarrow> bool" where
  "uncomparable a b \<longleftrightarrow>
     (assert_bytes a \<noteq> None \<and> assert_bytes b \<noteq> None) \<or> (assert_slice a \<noteq> None \<and> assert_slice b \<noteq> None)"

definition booleanT_Compare :: "gval \<Rightarrow> gval \<Rightarrow> int res" where
  "booleanT_Compare a b =
     (if uncomparable a b then Panic ''runtime error: comparing uncomparable type''
      else if a = b then Ok 0
      else if a = VBool False then Ok (- 1)
      else Ok 1)"

text \<open>The loop of \<^verbatim>\<open>arrayT.Compare\<close> over two slices of the same length; \<open>cmp\<close> is
  \<^verbatim>\<open>t.underlying.Compare\<close>.\<close>

fun arrayT_Compare_loop ::
  "(gval \<Rightarrow> gval \<Rightarrow> int res) \<Rightarrow> gval list \<Rightarrow> gval list \<Rightarrow> int res" where
  "arrayT_Compare_loop cmp [] right = Ok 0"
| "arrayT_Compare_loop cmp (l # left) [] = Panic ''index out of range''"
| "arrayT_Compare_loop cmp (l # left) (r # right) =
     (case cmp l r of
        Err err \<Rightarrow> Err err
      | Panic p \<Rightarrow> Panic p
      | Ok c \<Rightarrow> if c \<noteq> 0 then Ok c else arrayT_Compare_loop cmp left right)"

fun Compare :: "golib \<Rightarrow> Type \<Rightarrow> gval \<Rightarrow> gval \<Rightarrow> int res"
  and tupleT_Compare_loop :: "golib \<Rightarrow> Type list \<Rightarrow> gval list \<Rightarrow> gval list \<Rightarrow> int res"
where
  "Compare L nullT a b = nullT_Compare a b"
| "Compare L (numberT t) a b = numberT_Compare L t a b"
| "Compare L timestampT a b = timestampT_Compare a b"
| "Compare L dateT a b = dateT_Compare a b"
| "Compare L textT a b = textT_Compare a b"
| "Compare L booleanT a b = booleanT_Compare a b"
| "Compare L blobT a b = blobT_Compare a b"
| "Compare L jsonT a b = jsonT_Compare a b"
| "Compare L (tupleT t) a b =
     (case Convert L (tupleT t) a of
        Err err \<Rightarrow> Err err
      | Panic p \<Rightarrow> Panic p
      | Ok a' \<Rightarrow>
          (case Convert L (tupleT t) b of
             Err err \<Rightarrow> Err err
           | Panic p \<Rightarrow> Panic p
           | Ok b' \<Rightarrow>
               (case assert_slice a' of
                  None \<Rightarrow> Panic ''interface conversion: interface {} is not []interface {}''
                | Some left \<Rightarrow>
                    (case assert_slice b' of
                       None \<Rightarrow>
                         Panic ''interface conversion: interface {} is not []interface {}''
                     | Some right \<Rightarrow> tupleT_Compare_loop L t left right))))"
| "Compare L (arrayT underlying) a b =
     (case Convert L (arrayT underlying) a of
        Err err \<Rightarrow> Err err
      | Panic p \<Rightarrow> Panic p
      | Ok a' \<Rightarrow>
          (case Convert L (arrayT underlying) b of
             Err err \<Rightarrow> Err err
           | Panic p \<Rightarrow> Panic p
           | Ok b' \<Rightarrow>
               (case assert_slice a' of
                  None \<Rightarrow> Panic ''interface conversion: interface {} is not []interface {}''
                | Some left \<Rightarrow>
                    (case assert_slice b' of
                       None \<Rightarrow>
                         Panic ''interface conversion: interface {} is not []interface {}''
                     | Some right \<Rightarrow>
                         if length left < length right then Ok (- 1)
                         else if length left > length right then Ok 1
                         else arrayT_Compare_loop (\<lambda>x y. Compare L underlying x y)
                                left right))))"
| "tupleT_Compare_loop L t [] right = Ok 0"
| "tupleT_Compare_loop L (typ # t) (l # left) (r # right) =
     (case Compare L typ l r of
        Err err \<Rightarrow> Err err
      | Panic p \<Rightarrow> Panic p
      | Ok c \<Rightarrow> if c \<noteq> 0 then Ok c else tupleT_Compare_loop L t left right)"
| "tupleT_Compare_loop L t (l # left) right = Panic ''index out of range''"

section \<open>The wire encoding of Date\<close>

text \<open>\<^verbatim>\<open>dateT.SQL\<close>. The first test, \<^verbatim>\<open>v.(nullT)\<close>, holds for the struct
  \<^verbatim>\<open>nullT{}\<close> only.\<close>

definition dateT_SQL :: "golib \<Rightarrow> gval \<Rightarrow> sqltypes_Value res" where
  "dateT_SQL L v =
     (if v = VNullT then Ok sqltypes_NULL
      else
        (case Convert L dateT v of
           Err err \<Rightarrow> Err err
         | Panic p \<Rightarrow> Panic p
         | Ok c \<Rightarrow>
             (case c of
                VTime t \<Rightarrow> Ok (MakeTrusted sqltypes_Timestamp (time_Format L t DateLayout))
              | _ \<Rightarrow> Panic ''interface conversion: interface {} is not time.Time'')))"

section \<open>Columns and schemas\<close>

record Column =
  Name :: string
  Type :: Type
  Default :: gval
  Nullable :: bool
  Source :: string

type_synonym Schema = "Column list"

text \<open>
  Modelled from the spec: the type \<^verbatim>\<open>Row\<close>, declared outside \<^verbatim>\<open>src/\<close>
  (``rows are ordered sequences of values positionally aligned to a Schema''); the code
  takes its length and indexes it.
\<close>

type_synonym Row = "gval list"

text \<open>\<^verbatim>\<open>Column.Check\<close>; \<^verbatim>\<open>v == nil\<close> holds for the nil interface value only.\<close>

definition Check :: "golib \<Rightarrow> Column \<Rightarrow> gval \<Rightarrow> bool res" where
  "Check L c v =
     (if v = VNil then Ok (Nullable c)
      else
        (case Convert L (Type c) v of
           Ok x \<Rightarrow> Ok True
         | Err err \<Rightarrow> Ok False
         | Panic p \<Rightarrow> Panic p))"

text \<open>
  \<^verbatim>\<open>reflect.TypeOf(v).String()\<close>. \<^verbatim>\<open>reflect.TypeOf(nil)\<close> is the nil
  \<^verbatim>\<open>reflect.Type\<close>, and the call of \<^verbatim>\<open>String\<close> on it panics (a nil pointer
  dereference): \<open>None\<close>.
\<close>

fun reflect_TypeOf_String :: "gval \<Rightarrow> string option" where
  "reflect_TypeOf_String VNil = None"
| "reflect_TypeOf_String (VBool b) = Some ''bool''"
| "reflect_TypeOf_String (VInt x) = Some ''int''"
| "reflect_TypeOf_String (VInt8 x) = Some ''int8''"
| "reflect_TypeOf_String (VInt16 x) = Some ''int16''"
| "reflect_TypeOf_String (VInt32 x) = Some ''int32''"
| "reflect_TypeOf_String (VInt64 x) = Some ''int64''"
| "reflect_TypeOf_String (VUint x) = Some ''uint''"
| "reflect_TypeOf_String (VUint8 x) = Some ''uint8''"
| "reflect_TypeOf_String (VUint16 x) = Some ''uint16''"
| "reflect_TypeOf_String (VUint32 x) = Some ''uint32''"
| "reflect_TypeOf_String (VUint64 x) = Some ''uint64''"
| "reflect_TypeOf_String (VFloat32 f) = Some ''float32''"
| "reflect_TypeOf_String (VFloat64 f) = Some ''float64''"
| "reflect_TypeOf_String (VString s) = Some ''string''"
| "reflect_TypeOf_String (VBytes s) = Some ''[]uint8''"
| "reflect_TypeOf_String (VTime t) = Some ''time.Time''"
| "reflect_TypeOf_String (VDuration d) = Some ''time.Duration''"
| "reflect_TypeOf_String (VSlice vs) = Some ''[]interface {}''"
| "reflect_TypeOf_String (VGenerator g) = Some (dyn_type g)"
| "reflect_TypeOf_String VNullT = Some ''sql.nullT''"
| "reflect_TypeOf_String (VOther n) = Some n"

text \<open>\<^verbatim>\<open>Schema.CheckRow\<close>: the loop, from position \<open>idx\<close> on, then the function.
  \<open>Ok ()\<close> is the return of a nil error.\<close>

fun CheckRow_loop :: "golib \<Rightarrow> nat \<Rightarrow> Schema \<Rightarrow> Row \<Rightarrow> unit res" where
  "CheckRow_loop L idx [] row = Ok ()"
| "CheckRow_loop L idx (f # fs) row =
     (if idx \<ge> length row then Panic ''index out of range''
      else
        (let v = row ! idx in
         case Check L f v of
           Panic p \<Rightarrow> Panic p
         | Err err \<Rightarrow> Err err
         | Ok True \<Rightarrow> CheckRow_loop L (Suc idx) fs row
         | Ok False \<Rightarrow>
             (case reflect_TypeOf_String v of
                None \<Rightarrow> Panic ''invalid memory address or nil pointer dereference''
              | Some typ \<Rightarrow> Err (ErrUnexpectedType idx typ))))"

definition CheckRow :: "golib \<Rightarrow> Schema \<Rightarrow> Row \<Rightarrow> unit res" where
  "CheckRow L s row =
     (let expected = length s; got = length row
      in if expected \<noteq> got then Err (ErrUnexpectedRowLength expected got)
         else CheckRow_loop L 0 s row)"

section \<open>A sample of the libraries\<close>

text \<open>
  The statements of this theory hold for every library record. The record \<open>stdlib\<close>
  defined in this section is one such record, with which the statements are run on
  concrete inputs. Each of its functions follows the documented behaviour of the Go
  library on the inputs listed with it; on the other inputs it answers with an error (or
  \<open>None\<close>), where the library itself may accept more, and no statement of this theory
  evaluates it there.
\<close>

subsection \<open>Decimal numerals\<close>

definition isDigit :: "char \<Rightarrow> bool" where
  "isDigit c \<longleftrightarrow> 48 \<le> (of_char c :: nat) \<and> (of_char c :: nat) \<le> 57"

definition digit_of :: "char \<Rightarrow> nat" where
  "digit_of c = of_char c - 48"

fun digits_value :: "nat \<Rightarrow> string \<Rightarrow> nat option" where
  "digits_value acc [] = Some acc"
| "digits_value acc (c # cs) =
     (if isDigit c then digits_value (10 * acc + digit_of c) cs else None)"

text \<open>A nonempty string of decimal digits.\<close>

definition decimal :: "string \<Rightarrow> nat option" where
  "decimal s = (if s = [] then None else digits_value 0 s)"

text \<open>The same, with no leading zero unless the numeral is \<open>0\<close>: the numerals that
  \<^verbatim>\<open>strconv.ParseInt\<close> with base 0 reads in base ten.\<close>

definition decimal10 :: "string \<Rightarrow> nat option" where
  "decimal10 s = (if length s > 1 \<and> hd s = CHR ''0'' then None else decimal s)"

fun signed_decimal10 :: "string \<Rightarrow> int option" where
  "signed_decimal10 [] = None"
| "signed_decimal10 (c # cs) =
     (if c = CHR ''-'' then map_option (\<lambda>n. - int n) (decimal10 cs)
      else if c = CHR ''+'' then map_option int (decimal10 cs)
      else map_option int (decimal10 (c # cs)))"

text \<open>\<^verbatim>\<open>strconv.Itoa\<close> and \<^verbatim>\<open>FormatInt\<close>, \<^verbatim>\<open>FormatUint\<close> in base ten.\<close>

fun digits_of :: "nat \<Rightarrow> nat \<Rightarrow> string" where
  "digits_of 0 n = []"
| "digits_of (Suc fuel) n =
     (if n < 10 then [char_of (48 + n)]
      else digits_of fuel (n div 10) @ [char_of (48 + n mod 10)])"

definition show_nat :: "nat \<Rightarrow> string" where
  "show_nat n = digits_of (Suc n) n"

definition show_int :: "int \<Rightarrow> string" where
  "show_int i = (if i < 0 then CHR ''-'' # show_nat (nat (- i)) else show_nat (nat i))"

subsection \<open>Package cast\<close>

text \<open>
  \<^verbatim>\<open>cast.ToInt64E\<close> and its siblings (version 1.3) switch on the dynamic type: an
  integer of any kind is converted with Go's conversion to the target type (which wraps),
  a float likewise (the fraction is discarded), \<^verbatim>\<open>true\<close> is 1 and \<^verbatim>\<open>false\<close> 0,
  nil is 0 for the integer targets, a string is parsed, and every other value is an
  error. The unsigned targets refuse a negative number. Strings: the sample reads
  base-ten numerals only.
\<close>

definition cast_failure :: gerror where
  "cast_failure = errorString ''unable to cast value''"

definition errNegativeNotAllowed :: gerror where
  "errNegativeNotAllowed = errorString ''unable to cast negative value''"

definition parse_int64 :: "string \<Rightarrow> gerror + 64 word" where
  "parse_int64 s =
     (case signed_decimal10 s of
        None \<Rightarrow> Inl cast_failure
      | Some i \<Rightarrow> if - (2 ^ 63) \<le> i \<and> i < 2 ^ 63 then Inr (word_of_int i) else Inl cast_failure)"

definition parse_uint64 :: "string \<Rightarrow> gerror + 64 word" where
  "parse_uint64 s =
     (case decimal10 s of
        None \<Rightarrow> Inl cast_failure
      | Some n \<Rightarrow> if n < 2 ^ 64 then Inr (of_nat n) else Inl cast_failure)"

fun std_ToInt64E :: "gval \<Rightarrow> gerror + 64 word" where
  "std_ToInt64E (VInt s) = Inr s"
| "std_ToInt64E (VInt64 s) = Inr s"
| "std_ToInt64E (VInt32 s) = Inr (scast s)"
| "std_ToInt64E (VInt16 s) = Inr (scast s)"
| "std_ToInt64E (VInt8 s) = Inr (scast s)"
| "std_ToInt64E (VUint s) = Inr s"
| "std_ToInt64E (VUint64 s) = Inr s"
| "std_ToInt64E (VUint32 s) = Inr (ucast s)"
| "std_ToInt64E (VUint16 s) = Inr (ucast s)"
| "std_ToInt64E (VUint8 s) = Inr (ucast s)"
| "std_ToInt64E (VFloat64 s) = Inr (float_to_int64 s)"
| "std_ToInt64E (VFloat32 s) = Inr (float_to_int64 s)"
| "std_ToInt64E (VString s) = parse_int64 s"
| "std_ToInt64E (VBool s) = Inr (if s then 1 else 0)"
| "std_ToInt64E VNil = Inr 0"
| "std_ToInt64E v = Inl cast_failure"

text \<open>The 32-bit target: the conversion \<^verbatim>\<open>int32(x)\<close> of a 64-bit integer keeps the
  low 32 bits. The conversion \<^verbatim>\<open>int32(f)\<close> of a float discards the fraction; when
  the result does not fit it is the smallest \<^verbatim>\<open>int32\<close> (amd64).\<close>

definition float_to_int32 :: "rat \<Rightarrow> 32 word" where
  "float_to_int32 x =
     (if - (2 ^ 31) \<le> trunc_rat x \<and> trunc_rat x < 2 ^ 31 then word_of_int (trunc_rat x)
      else word_of_int (- (2 ^ 31)))"

fun std_ToInt32E :: "gval \<Rightarrow> gerror + 32 word" where
  "std_ToInt32E (VInt s) = Inr (ucast s)"
| "std_ToInt32E (VInt64 s) = Inr (ucast s)"
| "std_ToInt32E (VInt32 s) = Inr s"
| "std_ToInt32E (VInt16 s) = Inr (scast s)"
| "std_ToInt32E (VInt8 s) = Inr (scast s)"
| "std_ToInt32E (VUint s) = Inr (ucast s)"
| "std_ToInt32E (VUint64 s) = Inr (ucast s)"
| "std_ToInt32E (VUint32 s) = Inr s"
| "std_ToInt32E (VUint16 s) = Inr (ucast s)"
| "std_ToInt32E (VUint8 s) = Inr (ucast s)"
| "std_ToInt32E (VFloat64 s) = Inr (float_to_int32 s)"
| "std_ToInt32E (VFloat32 s) = Inr (float_to_int32 s)"
| "std_ToInt32E (VString s) = map_sum id ucast (parse_int64 s)"
| "std_ToInt32E (VBool s) = Inr (if s then 1 else 0)"
| "std_ToInt32E VNil = Inr 0"
| "std_ToInt32E v = Inl cast_failure"

text \<open>The conversion \<^verbatim>\<open>uint64(f)\<close> of a float that is not negative: exact below
  \<open>2 ^ 64\<close>, and \<open>2 ^ 63\<close> when the result does not fit (amd64). The conversion
  \<^verbatim>\<open>uint32(f)\<close> goes through \<^verbatim>\<open>int64\<close> and keeps the low 32 bits.\<close>

definition float_to_uint64 :: "rat \<Rightarrow> 64 word" where
  "float_to_uint64 x =
     (if trunc_rat x < 2 ^ 63 then float_to_int64 x
      else if trunc_rat x < 2 ^ 64 then word_of_int (trunc_rat x)
      else word_of_int (2 ^ 63))"

definition non_negative :: "'a::len word \<Rightarrow> 'b \<Rightarrow> gerror + 'b" where
  "non_negative s r = (if sint s < 0 then Inl errNegativeNotAllowed else Inr r)"

fun std_ToUint64E :: "gval \<Rightarrow> gerror + 64 word" where
  "std_ToUint64E (VString s) = parse_uint64 s"
| "std_ToUint64E (VInt s) = non_negative s s"
| "std_ToUint64E (VInt64 s) = non_negative s s"
| "std_ToUint64E (VInt32 s) = non_negative s (scast s)"
| "std_ToUint64E (VInt16 s) = non_negative s (scast s)"
| "std_ToUint64E (VInt8 s) = non_negative s (scast s)"
| "std_ToUint64E (VUint s) = Inr s"
| "std_ToUint64E (VUint64 s) = Inr s"
| "std_ToUint64E (VUint32 s) = Inr (ucast s)"
| "std_ToUint64E (VUint16 s) = Inr (ucast s)"
| "std_ToUint64E (VUint8 s) = Inr (ucast s)"
| "std_ToUint64E (VFloat32 s) =
     (if s < 0 then Inl errNegativeNotAllowed else Inr (float_to_uint64 s))"
| "std_ToUint64E (VFloat64 s) =
     (if s < 0 then Inl errNegativeNotAllowed else Inr (float_to_uint64 s))"
| "std_ToUint64E (VBool s) = Inr (if s then 1 else 0)"
| "std_ToUint64E VNil = Inr 0"
| "std_ToUint64E v = Inl cast_failure"

fun std_ToUint32E :: "gval \<Rightarrow> gerror + 32 word" where
  "std_ToUint32E (VString s) = map_sum id ucast (parse_uint64 s)"
| "std_ToUint32E (VInt s) = non_negative s (ucast s)"
| "std_ToUint32E (VInt64 s) = non_negative s (ucast s)"
| "std_ToUint32E (VInt32 s) = non_negative s s"
| "std_ToUint32E (VInt16 s) = non_negative s (scast s)"
| "std_ToUint32E (VInt8 s) = non_negative s (scast s)"
| "std_ToUint32E (VUint s) = Inr (ucast s)"
| "std_ToUint32E (VUint64 s) = Inr (ucast s)"
| "std_ToUint32E (VUint32 s) = Inr s"
| "std_ToUint32E (VUint16 s) = Inr (ucast s)"
| "std_ToUint32E (VUint8 s) = Inr (ucast s)"
| "std_ToUint32E (VFloat32 s) =
     (if s < 0 then Inl errNegativeNotAllowed else Inr (ucast (float_to_int64 s)))"
| "std_ToUint32E (VFloat64 s) =
     (if s < 0 then Inl errNegativeNotAllowed else Inr (ucast (float_to_int64 s)))"
| "std_ToUint32E (VBool s) = Inr (if s then 1 else 0)"
| "std_ToUint32E VNil = Inr 0"
| "std_ToUint32E v = Inl cast_failure"

text \<open>The float targets. A float is modelled by the rational it denotes, and the
  rounding of a conversion to a float is not modelled.\<close>

fun split_at_dot :: "string \<Rightarrow> string \<times> string option" where
  "split_at_dot [] = ([], None)"
| "split_at_dot (c # cs) =
     (if c = CHR ''.'' then ([], Some cs)
      else (case split_at_dot cs of (a, b) \<Rightarrow> (c # a, b)))"

definition unsigned_rat :: "string \<Rightarrow> rat option" where
  "unsigned_rat s =
     (case split_at_dot s of
        (a, None) \<Rightarrow> map_option of_nat (decimal a)
      | (a, Some b) \<Rightarrow>
          (if a = [] \<and> b = [] then None
           else
             (case (digits_value 0 a, digits_value 0 b) of
                (Some x, Some y) \<Rightarrow> Some (of_nat x + of_nat y / 10 ^ length b)
              | _ \<Rightarrow> None)))"

fun parse_float :: "string \<Rightarrow> gerror + rat" where
  "parse_float [] = Inl cast_failure"
| "parse_float (c # cs) =
     (case (if c = CHR ''-'' then map_option uminus (unsigned_rat cs)
            else if c = CHR ''+'' then unsigned_rat cs
            else unsigned_rat (c # cs)) of
        None \<Rightarrow> Inl cast_failure
      | Some x \<Rightarrow> Inr x)"

fun std_ToFloat64E :: "gval \<Rightarrow> gerror + rat" where
  "std_ToFloat64E (VFloat64 s) = Inr s"
| "std_ToFloat64E (VFloat32 s) = Inr s"
| "std_ToFloat64E (VInt s) = Inr (of_int (sint s))"
| "std_ToFloat64E (VInt64 s) = Inr (of_int (sint s))"
| "std_ToFloat64E (VInt32 s) = Inr (of_int (sint s))"
| "std_ToFloat64E (VInt16 s) = Inr (of_int (sint s))"
| "std_ToFloat64E (VInt8 s) = Inr (of_int (sint s))"
| "std_ToFloat64E (VUint s) = Inr (of_int (uint s))"
| "std_ToFloat64E (VUint64 s) = Inr (of_int (uint s))"
| "std_ToFloat64E (VUint32 s) = Inr (of_int (uint s))"
| "std_ToFloat64E (VUint16 s) = Inr (of_int (uint s))"
| "std_ToFloat64E (VUint8 s) = Inr (of_int (uint s))"
| "std_ToFloat64E (VString s) = parse_float s"
| "std_ToFloat64E (VBool s) = Inr (if s then 1 else 0)"
| "std_ToFloat64E v = Inl cast_failure"

text \<open>\<^verbatim>\<open>cast.ToStringE\<close>: strings and byte slices as they are, nil as the empty
  string, booleans and integers in their usual notation, a \<^verbatim>\<open>fmt.Stringer\<close> by its
  method. (The library also writes floats; the sample does not.)\<close>

fun std_Stringer :: "gval \<Rightarrow> string option" where
  "std_Stringer VNullT = Some ''NULL''"
| "std_Stringer v = None"

fun std_ToStringE :: "gval \<Rightarrow> gerror + string" where
  "std_ToStringE (VString s) = Inr s"
| "std_ToStringE (VBool s) = Inr (if s then ''true'' else ''false'')"
| "std_ToStringE (VInt s) = Inr (show_int (sint s))"
| "std_ToStringE (VInt64 s) = Inr (show_int (sint s))"
| "std_ToStringE (VInt32 s) = Inr (show_int (sint s))"
| "std_ToStringE (VInt16 s) = Inr (show_int (sint s))"
| "std_ToStringE (VInt8 s) = Inr (show_int (sint s))"
| "std_ToStringE (VUint s) = Inr (show_int (uint s))"
| "std_ToStringE (VUint64 s) = Inr (show_int (uint s))"
| "std_ToStringE (VUint32 s) = Inr (show_int (uint s))"
| "std_ToStringE (VUint16 s) = Inr (show_int (uint s))"
| "std_ToStringE (VUint8 s) = Inr (show_int (uint s))"
| "std_ToStringE (VBytes s) = Inr s"
| "std_ToStringE VNil = Inr []"
| "std_ToStringE v =
     (case std_Stringer v of
        Some s \<Rightarrow> Inr s
      | None \<Rightarrow> Inl cast_failure)"

subsection \<open>Package time\<close>

text \<open>
  \<^verbatim>\<open>time.Parse\<close> and \<^verbatim>\<open>Time.Format\<close> (Go 1.20) cut a layout into literal text
  and standard elements. The sample knows the elements that occur in the layouts of
  \<^verbatim>\<open>type.go\<close>: \<^verbatim>\<open>2006\<close>, \<^verbatim>\<open>01\<close>, \<^verbatim>\<open>02\<close>, \<^verbatim>\<open>15\<close>, \<^verbatim>\<open>04\<close>,
  \<^verbatim>\<open>05\<close> and \<^verbatim>\<open>Z07:00\<close>; it takes every other character of a layout as literal
  text.
\<close>

datatype chunk =
    Lit string
  | stdLongYear | stdZeroMonth | stdZeroDay | stdHour | stdZeroMinute | stdZeroSecond
  | stdISO8601ColonTZ

definition std_at :: "string \<Rightarrow> (chunk \<times> nat) option" where
  "std_at s =
     (if take 4 s = ''2006'' then Some (stdLongYear, 4)
      else if take 2 s = ''01'' then Some (stdZeroMonth, 2)
      else if take 2 s = ''02'' then Some (stdZeroDay, 2)
      else if take 2 s = ''15'' then Some (stdHour, 2)
      else if take 2 s = ''04'' then Some (stdZeroMinute, 2)
      else if take 2 s = ''05'' then Some (stdZeroSecond, 2)
      else if take 6 s = ''Z07:00'' then Some (stdISO8601ColonTZ, 6)
      else None)"

text \<open>\<open>chunks_from k s\<close>: the elements of \<open>s\<close> after its first \<open>k\<close> characters, which
  belong to the element before.\<close>

fun chunks_from :: "nat \<Rightarrow> string \<Rightarrow> chunk list" where
  "chunks_from k [] = []"
| "chunks_from k (c # r) =
     (if k > 0 then chunks_from (k - 1) r
      else
        (case std_at (c # r) of
           Some (ch, n) \<Rightarrow> ch # chunks_from (n - 1) r
         | None \<Rightarrow> Lit [c] # chunks_from 0 r))"

fun merge_literals :: "chunk list \<Rightarrow> chunk list" where
  "merge_literals [] = []"
| "merge_literals (Lit a # cs) =
     (case merge_literals cs of
        Lit b # r \<Rightarrow> Lit (a @ b) # r
      | r \<Rightarrow> Lit a # r)"
| "merge_literals (c # cs) = c # merge_literals cs"

definition layout_chunks :: "string \<Rightarrow> chunk list" where
  "layout_chunks layout = merge_literals (chunks_from 0 layout)"

text \<open>Days since the Unix epoch of a date of the proleptic Gregorian calendar, and
  back.\<close>

definition days_from_civil :: "int \<Rightarrow> int \<Rightarrow> int \<Rightarrow> int" where
  "days_from_civil y m d =
     (let y' = (if m \<le> 2 then y - 1 else y);
          era = y' div 400;
          yoe = y' - era * 400;
          mp = (m + 9) mod 12;
          doy = (153 * mp + 2) div 5 + d - 1;
          doe = yoe * 365 + yoe div 4 - yoe div 100 + doy
      in era * 146097 + doe - 719468)"

definition civil_from_days :: "int \<Rightarrow> int \<times> int \<times> int" where
  "civil_from_days z =
     (let z' = z + 719468;
          era = z' div 146097;
          doe = z' - era * 146097;
          yoe = (doe - doe div 1460 + doe div 36524 - doe div 146096) div 365;
          doy = doe - (365 * yoe + yoe div 4 - yoe div 100);
          mp = (5 * doy + 2) div 153;
          d = doy - (153 * mp + 2) div 5 + 1;
          m = (if mp < 10 then mp + 3 else mp - 9);
          y = yoe + era * 400
      in (if m \<le> 2 then y + 1 else y, m, d))"

definition isLeap :: "int \<Rightarrow> bool" where
  "isLeap year \<longleftrightarrow> year mod 4 = 0 \<and> (year mod 100 \<noteq> 0 \<or> year mod 400 = 0)"

definition daysIn :: "int \<Rightarrow> int \<Rightarrow> int" where
  "daysIn m year =
     (if m = 2 then (if isLeap year then 29 else 28)
      else if m = 4 \<or> m = 6 \<or> m = 9 \<or> m = 11 then 30
      else 31)"

text \<open>The fields read so far; \<^verbatim>\<open>Parse\<close> starts with the first of January of year 0
  at midnight UTC.\<close>

record fields =
  f_year :: int
  f_month :: int
  f_day :: int
  f_hour :: int
  f_min :: int
  f_sec :: int
  f_nsec :: int
  f_zone :: int

definition fields0 :: fields where
  "fields0 = \<lparr>f_year = 0, f_month = 1, f_day = 1, f_hour = 0, f_min = 0, f_sec = 0,
     f_nsec = 0, f_zone = 0\<rparr>"

text \<open>\<^verbatim>\<open>getnum\<close>: a number of one or two digits, of two digits exactly when
  \<open>fixed\<close>.\<close>

fun getnum :: "bool \<Rightarrow> string \<Rightarrow> (int \<times> string) option" where
  "getnum fixed [] = None"
| "getnum fixed [a] =
     (if isDigit a \<and> \<not> fixed then Some (int (digit_of a), []) else None)"
| "getnum fixed (a # b # r) =
     (if \<not> isDigit a then None
      else if \<not> isDigit b then (if fixed then None else Some (int (digit_of a), b # r))
      else Some (int (digit_of a * 10 + digit_of b), r))"

definition cutspace :: "string \<Rightarrow> string" where
  "cutspace s = dropWhile (\<lambda>c. c = CHR '' '') s"

text \<open>\<^verbatim>\<open>skip\<close>: the value after the literal text \<open>prefix\<close>. A space of the layout
  stands for any number of spaces of the value.\<close>

function skip :: "string \<Rightarrow> string \<Rightarrow> string option" where
  "skip v [] = Some v"
| "skip v (p # ps) =
     (if p = CHR '' ''
      then (if v \<noteq> [] \<and> hd v \<noteq> CHR '' '' then None else skip (cutspace v) (cutspace ps))
      else
        (case v of
           [] \<Rightarrow> None
         | x # xs \<Rightarrow> if x \<noteq> p then None else skip xs ps))"
  by pat_completeness auto
termination
  by (relation "measure (\<lambda>(v, p). length p)")
    (auto simp: cutspace_def less_Suc_eq_le length_dropWhile_le)

text \<open>The fraction of a second that may follow the seconds though the layout has none: a
  period or a comma, then digits, of which nine count.\<close>

definition fraction :: "string \<Rightarrow> (int \<times> string) option" where
  "fraction v =
     (case v of
        c # d # r \<Rightarrow>
          if (c = CHR ''.'' \<or> c = CHR '','') \<and> isDigit d
          then
            (let ds = takeWhile isDigit (d # r);
                 ds9 = take 9 ds
             in map_option (\<lambda>n. (int n * 10 ^ (9 - length ds9), dropWhile isDigit (d # r)))
                  (decimal ds9))
          else None
      | _ \<Rightarrow> None)"

text \<open>The offset of \<^verbatim>\<open>Z07:00\<close>: \<^verbatim>\<open>Z\<close>, or a sign, two digits, a colon and two
  digits.\<close>

definition zone_offset :: "string \<Rightarrow> (int \<times> string) option" where
  "zone_offset v =
     (if v \<noteq> [] \<and> hd v = CHR ''Z'' then Some (0, tl v)
      else if length v < 6 \<or> v ! 3 \<noteq> CHR '':'' then None
      else
        (case (getnum True (take 2 (drop 1 v)), getnum True (take 2 (drop 4 v))) of
           (Some (hr, r1), Some (mm, r2)) \<Rightarrow>
             if hr > 24 \<or> mm > 60 then None
             else if hd v = CHR ''+'' then Some ((hr * 60 + mm) * 60, drop 6 v)
             else if hd v = CHR ''-'' then Some (- ((hr * 60 + mm) * 60), drop 6 v)
             else None
         | _ \<Rightarrow> None))"

fun parse_chunks :: "chunk list \<Rightarrow> string \<Rightarrow> fields \<Rightarrow> fields option" where
  "parse_chunks [] v st = (if v = [] then Some st else None)"
| "parse_chunks (Lit p # cs) v st =
     (case skip v p of
        None \<Rightarrow> None
      | Some v' \<Rightarrow> parse_chunks cs v' st)"
| "parse_chunks (stdLongYear # cs) v st =
     (if length v < 4 \<or> \<not> isDigit (hd v) then None
      else
        (case decimal (take 4 v) of
           None \<Rightarrow> None
         | Some y \<Rightarrow> parse_chunks cs (drop 4 v) (st\<lparr>f_year := int y\<rparr>)))"
| "parse_chunks (stdZeroMonth # cs) v st =
     (case getnum True v of
        None \<Rightarrow> None
      | Some (m, v') \<Rightarrow>
          if m \<le> 0 \<or> 12 < m then None else parse_chunks cs v' (st\<lparr>f_month := m\<rparr>))"
| "parse_chunks (stdZeroDay # cs) v st =
     (case getnum True v of
        None \<Rightarrow> None
      | Some (d, v') \<Rightarrow> parse_chunks cs v' (st\<lparr>f_day := d\<rparr>))"
| "parse_chunks (stdHour # cs) v st =
     (case getnum False v of
        None \<Rightarrow> None
      | Some (h, v') \<Rightarrow>
          if h < 0 \<or> 24 \<le> h then None else parse_chunks cs v' (st\<lparr>f_hour := h\<rparr>))"
| "parse_chunks (stdZeroMinute # cs) v st =
     (case getnum True v of
        None \<Rightarrow> None
      | Some (m, v') \<Rightarrow>
          if m < 0 \<or> 60 \<le> m then None else parse_chunks cs v' (st\<lparr>f_min := m\<rparr>))"
| "parse_chunks (stdZeroSecond # cs) v st =
     (case getnum True v of
        None \<Rightarrow> None
      | Some (s, v') \<Rightarrow>
          if s < 0 \<or> 60 \<le> s then None
          else
            (case fraction v' of
               None \<Rightarrow> parse_chunks cs v' (st\<lparr>f_sec := s\<rparr>)
             | Some (ns, v'') \<Rightarrow> parse_chunks cs v'' (st\<lparr>f_sec := s, f_nsec := ns\<rparr>)))"
| "parse_chunks (stdISO8601ColonTZ # cs) v st =
     (case zone_offset v of
        None \<Rightarrow> None
      | Some (z, v') \<Rightarrow> parse_chunks cs v' (st\<lparr>f_zone := z\<rparr>))"

text \<open>\<^verbatim>\<open>Date(year, month, day, hour, min, sec, nsec, loc)\<close> for fields in their ranges.\<close>

definition time_of_fields :: "fields \<Rightarrow> gotime" where
  "time_of_fields st =
     \<lparr>unix = days_from_civil (f_year st) (f_month st) (f_day st) * 86400
              + f_hour st * 3600 + f_min st * 60 + f_sec st - f_zone st,
      nsec = f_nsec st,
      zone = f_zone st\<rparr>"

definition std_Parse :: "string \<Rightarrow> string \<Rightarrow> gerror + gotime" where
  "std_Parse layout v =
     (case parse_chunks (layout_chunks layout) v fields0 of
        None \<Rightarrow> Inl (errorString ''parsing time: cannot parse'')
      | Some st \<Rightarrow>
          if f_day st < 1 \<or> f_day st > daysIn (f_month st) (f_year st)
          then Inl (errorString ''parsing time: day out of range'')
          else Inr (time_of_fields st))"

text \<open>\<^verbatim>\<open>appendInt\<close>: a number in at least \<open>width\<close> digits.\<close>

definition appendInt :: "int \<Rightarrow> nat \<Rightarrow> string" where
  "appendInt x width =
     (let ds = show_nat (nat \<bar>x\<bar>);
          padded = replicate (width - length ds) CHR ''0'' @ ds
      in if x < 0 then CHR ''-'' # padded else padded)"

definition fields_of_time :: "gotime \<Rightarrow> fields" where
  "fields_of_time t =
     (let wall = unix t + zone t;
          days = wall div 86400;
          secs = wall mod 86400
      in case civil_from_days days of
           (y, m, d) \<Rightarrow>
             \<lparr>f_year = y, f_month = m, f_day = d, f_hour = secs div 3600,
              f_min = (secs mod 3600) div 60, f_sec = secs mod 60, f_nsec = nsec t,
              f_zone = zone t\<rparr>)"

definition format_zone :: "int \<Rightarrow> string" where
  "format_zone offset =
     (let z = \<bar>offset\<bar> div 60
      in if offset = 0 then ''Z''
         else (if offset < 0 then ''-'' else ''+'')
              @ appendInt (z div 60) 2 @ '':'' @ appendInt (z mod 60) 2)"

fun format_chunk :: "fields \<Rightarrow> chunk \<Rightarrow> string" where
  "format_chunk st (Lit s) = s"
| "format_chunk st stdLongYear = appendInt (f_year st) 4"
| "format_chunk st stdZeroMonth = appendInt (f_month st) 2"
| "format_chunk st stdZeroDay = appendInt (f_day st) 2"
| "format_chunk st stdHour = appendInt (f_hour st) 2"
| "format_chunk st stdZeroMinute = appendInt (f_min st) 2"
| "format_chunk st stdZeroSecond = appendInt (f_sec st) 2"
| "format_chunk st stdISO8601ColonTZ = format_zone (f_zone st)"

definition std_Format :: "gotime \<Rightarrow> string \<Rightarrow> string" where
  "std_Format t layout = concat (map (format_chunk (fields_of_time t)) (layout_chunks layout))"

subsection \<open>Package encoding/json\<close>

text \<open>
  \<^verbatim>\<open>json.Marshal\<close> on nil, booleans, integers, durations, strings of plain
  characters (printable ASCII but the quote, the backslash and the three characters that
  the encoder escapes for HTML) and byte slices, which it writes in base 64 between
  quotes (an empty byte slice as the empty string; Go writes a nil one as
  \<^verbatim>\<open>null\<close>, which the model does not tell apart). \<^verbatim>\<open>json.Unmarshal\<close> on the
  documents \<^verbatim>\<open>null\<close>, \<^verbatim>\<open>true\<close>, \<^verbatim>\<open>false\<close> and a quoted string of plain
  characters.
\<close>

definition plain_char :: "char \<Rightarrow> bool" where
  "plain_char c \<longleftrightarrow>
     32 \<le> (of_char c :: nat) \<and> (of_char c :: nat) \<le> 126
     \<and> c \<notin> {CHR 0x22, CHR 0x5C, CHR ''<'', CHR ''>'', CHR ''&''}"

definition quoted :: "string \<Rightarrow> string" where
  "quoted s = [CHR 0x22] @ s @ [CHR 0x22]"

definition base64_alphabet :: string where
  "base64_alphabet = ''ABCDEFGHIJKLMNOPQRSTUVWXYZabcdefghijklmnopqrstuvwxyz0123456789+/''"

definition sextet :: "nat \<Rightarrow> char" where
  "sextet n = base64_alphabet ! (n mod 64)"

fun base64 :: "string \<Rightarrow> string" where
  "base64 [] = []"
| "base64 [a] =
     (let n = of_char a * 16
      in [sextet (n div 64), sextet n, CHR ''='', CHR ''=''])"
| "base64 [a, b] =
     (let n = (of_char a * 256 + of_char b) * 4
      in [sextet (n div 4096), sextet (n div 64), sextet n, CHR ''=''])"
| "base64 (a # b # c # r) =
     (let n = of_char a * 65536 + of_char b * 256 + of_char c
      in [sextet (n div 262144), sextet (n div 4096), sextet (n div 64), sextet n]
         @ base64 r)"

definition json_failure :: gerror where
  "json_failure = errorString ''json: not covered by the sample''"

fun std_Marshal :: "gval \<Rightarrow> gerror + string" where
  "std_Marshal VNil = Inr ''null''"
| "std_Marshal (VBool b) = Inr (if b then ''true'' else ''false'')"
| "std_Marshal (VInt s) = Inr (show_int (sint s))"
| "std_Marshal (VInt64 s) = Inr (show_int (sint s))"
| "std_Marshal (VInt32 s) = Inr (show_int (sint s))"
| "std_Marshal (VInt16 s) = Inr (show_int (sint s))"
| "std_Marshal (VInt8 s) = Inr (show_int (sint s))"
| "std_Marshal (VUint s) = Inr (show_int (uint s))"
| "std_Marshal (VUint64 s) = Inr (show_int (uint s))"
| "std_Marshal (VUint32 s) = Inr (show_int (uint s))"
| "std_Marshal (VUint16 s) = Inr (show_int (uint s))"
| "std_Marshal (VUint8 s) = Inr (show_int (uint s))"
| "std_Marshal (VDuration s) = Inr (show_int (sint s))"
| "std_Marshal (VString s) = (if list_all plain_char s then Inr (quoted s) else Inl json_failure)"
| "std_Marshal (VBytes s) = Inr (quoted (base64 s))"
| "std_Marshal v = Inl json_failure"

definition std_Unmarshal :: "string \<Rightarrow> gerror + gval" where
  "std_Unmarshal s =
     (if s = ''null'' then Inr VNil
      else if s = ''true'' then Inr (VBool True)
      else if s = ''false'' then Inr (VBool False)
      else if length s \<ge> 2 \<and> hd s = CHR 0x22 \<and> last s = CHR 0x22
              \<and> list_all plain_char (butlast (tl s))
      then Inr (VString (butlast (tl s)))
      else Inl json_failure)"

subsection \<open>The record\<close>

definition stdlib :: golib where
  "stdlib =
     \<lparr>cast_ToInt32E = std_ToInt32E,
      cast_ToInt64E = std_ToInt64E,
      cast_ToUint32E = std_ToUint32E,
      cast_ToUint64E = std_ToUint64E,
      cast_ToFloat32E = std_ToFloat64E,
      cast_ToFloat64E = std_ToFloat64E,
      cast_ToStringE = std_ToStringE,
      fmt_Stringer = std_Stringer,
      time_Parse = std_Parse,
      time_Format = std_Format,
      time_Local = 0,
      json_Marshal = std_Marshal,
      json_Unmarshal = std_Unmarshal\<rparr>"

section \<open>What the statements assume of the libraries\<close>

text \<open>
  Facts about package cast that its documentation and every version of its source give:
  \<^verbatim>\<open>ToInt64E\<close> converts an integer of any kind with \<^verbatim>\<open>int64(x)\<close> and a float by
  discarding the fraction; each function returns a value that already has its target
  type as it is; \<^verbatim>\<open>ToUint64E\<close> widens an unsigned integer; \<^verbatim>\<open>ToStringE\<close>
  returns a string as it is; \<^verbatim>\<open>ToInt64E\<close> does not convert the struct
  \<^verbatim>\<open>nullT{}\<close>. And about \<^verbatim>\<open>json.Marshal\<close>: it encodes every byte slice.
\<close>

definition cast_int64_integers :: "golib \<Rightarrow> bool" where
  "cast_int64_integers L \<longleftrightarrow>
     (\<forall>x. cast_ToInt64E L (VInt x) = Inr x)
     \<and> (\<forall>x. cast_ToInt64E L (VInt64 x) = Inr x)
     \<and> (\<forall>x. cast_ToInt64E L (VInt32 x) = Inr (scast x))
     \<and> (\<forall>x. cast_ToInt64E L (VInt16 x) = Inr (scast x))
     \<and> (\<forall>x. cast_ToInt64E L (VInt8 x) = Inr (scast x))
     \<and> (\<forall>x. cast_ToInt64E L (VUint x) = Inr x)
     \<and> (\<forall>x. cast_ToInt64E L (VUint64 x) = Inr x)
     \<and> (\<forall>x. cast_ToInt64E L (VUint32 x) = Inr (ucast x))
     \<and> (\<forall>x. cast_ToInt64E L (VUint16 x) = Inr (ucast x))
     \<and> (\<forall>x. cast_ToInt64E L (VUint8 x) = Inr (ucast x))"

definition cast_int64_floats :: "golib \<Rightarrow> bool" where
  "cast_int64_floats L \<longleftrightarrow>
     (\<forall>f. cast_ToInt64E L (VFloat32 f) = Inr (float_to_int64 f))
     \<and> (\<forall>f. cast_ToInt64E L (VFloat64 f) = Inr (float_to_int64 f))"

text \<open>
  The conversions of package cast on numbers. An integer of any kind is converted to an
  integer target with Go's conversion, which keeps the number modulo the width of the
  target; the unsigned targets take every integer that is not negative (a version of the
  package converts a negative one as well, a later one refuses it); a float goes to
  \<^verbatim>\<open>int64\<close> by discarding the fraction; and every number is converted to every
  target of the six.
\<close>

definition cast_converts_integers :: "golib \<Rightarrow> bool" where
  "cast_converts_integers L \<longleftrightarrow>
     (\<forall>v i. int_value v = Some i \<longrightarrow>
        cast_ToInt32E L v = Inr (word_of_int i)
        \<and> cast_ToInt64E L v = Inr (word_of_int i)
        \<and> (0 \<le> i \<longrightarrow>
              cast_ToUint32E L v = Inr (word_of_int i)
              \<and> cast_ToUint64E L v = Inr (word_of_int i))
        \<and> (\<exists>f. cast_ToFloat32E L v = Inr f)
        \<and> (\<exists>f. cast_ToFloat64E L v = Inr f))"

definition cast_converts_floats :: "golib \<Rightarrow> bool" where
  "cast_converts_floats L \<longleftrightarrow>
     (\<forall>v f. float_value v = Some f \<longrightarrow>
        (\<exists>x. cast_ToInt32E L v = Inr x)
        \<and> cast_ToInt64E L v = Inr (float_to_int64 f)
        \<and> (0 \<le> f \<longrightarrow>
              (\<exists>x. cast_ToUint32E L v = Inr x) \<and> (\<exists>x. cast_ToUint64E L v = Inr x))
        \<and> (\<exists>g. cast_ToFloat32E L v = Inr g)
        \<and> cast_ToFloat64E L v = Inr f)"

definition cast_identity :: "golib \<Rightarrow> bool" where
  "cast_identity L \<longleftrightarrow>
     (\<forall>x. cast_ToInt32E L (VInt32 x) = Inr x)
     \<and> (\<forall>x. cast_ToInt64E L (VInt64 x) = Inr x)
     \<and> (\<forall>x. cast_ToUint32E L (VUint32 x) = Inr x)
     \<and> (\<forall>x. cast_ToUint64E L (VUint64 x) = Inr x)
     \<and> (\<forall>f. cast_ToFloat32E L (VFloat32 f) = Inr f)
     \<and> (\<forall>f. cast_ToFloat64E L (VFloat64 f) = Inr f)
     \<and> (\<forall>s. cast_ToStringE L (VString s) = Inr s)"

definition cast_uint64_unsigned :: "golib \<Rightarrow> bool" where
  "cast_uint64_unsigned L \<longleftrightarrow>
     (\<forall>x. cast_ToUint64E L (VUint32 x) = Inr (ucast x))
     \<and> (\<forall>x. cast_ToUint64E L (VUint64 x) = Inr x)"

definition cast_rejects_nullT :: "golib \<Rightarrow> bool" where
  "cast_rejects_nullT L \<longleftrightarrow> (\<exists>err. cast_ToInt64E L VNullT = Inl err)"

definition json_marshals_bytes :: "golib \<Rightarrow> bool" where
  "json_marshals_bytes L \<longleftrightarrow> (\<forall>bs. \<exists>out. json_Marshal L (VBytes bs) = Inr out)"

section \<open>Idempotence of a type\<close>

text \<open>A type is idempotent when every value that its \<^verbatim>\<open>Convert\<close> returns is converted
  again without error and compares as equal to itself.\<close>

definition idempotent_on :: "golib \<Rightarrow> Type \<Rightarrow> bool" where
  "idempotent_on L t \<longleftrightarrow>
     (\<forall>v c. Convert L t v = Ok c \<longrightarrow> (\<exists>c'. Convert L t c = Ok c') \<and> Compare L t c c = Ok 0)"

section \<open>The sample satisfies what is assumed\<close>

lemma stdlib_int64_integers: "cast_int64_integers stdlib"
  by (simp add: cast_int64_integers_def stdlib_def)

lemma stdlib_int64_floats: "cast_int64_floats stdlib"
  by (simp add: cast_int64_floats_def stdlib_def)

lemma stdlib_identity: "cast_identity stdlib"
  by (simp add: cast_identity_def stdlib_def)

lemma stdlib_uint64_unsigned: "cast_uint64_unsigned stdlib"
  by (simp add: cast_uint64_unsigned_def stdlib_def)

lemma stdlib_rejects_nullT: "cast_rejects_nullT stdlib"
  by (simp add: cast_rejects_nullT_def stdlib_def)

lemma stdlib_marshals_bytes: "json_marshals_bytes stdlib"
  by (simp add: json_marshals_bytes_def stdlib_def)

lemma scast_down32: "(scast (s :: 64 word) :: 32 word) = ucast s"
proof -
  have "(ucast :: 64 word \<Rightarrow> 32 word) = scast"
    by (rule down_cast_same) (simp add: is_down)
  then show ?thesis by simp
qed

lemma stdlib_converts_integers: "cast_converts_integers stdlib"
  unfolding cast_converts_integers_def
proof (intro allI impI)
  fix v i assume "int_value v = Some i"
  then show "cast_ToInt32E stdlib v = Inr (word_of_int i)
        \<and> cast_ToInt64E stdlib v = Inr (word_of_int i)
        \<and> (0 \<le> i \<longrightarrow>
              cast_ToUint32E stdlib v = Inr (word_of_int i)
              \<and> cast_ToUint64E stdlib v = Inr (word_of_int i))
        \<and> (\<exists>f. cast_ToFloat32E stdlib v = Inr f)
        \<and> (\<exists>f. cast_ToFloat64E stdlib v = Inr f)"
    by (cases v; clarsimp simp: stdlib_def scast_down32 non_negative_def)
qed

lemma stdlib_converts_floats: "cast_converts_floats stdlib"
  unfolding cast_converts_floats_def
proof (intro allI impI)
  fix v f assume "float_value v = Some f"
  then show "(\<exists>x. cast_ToInt32E stdlib v = Inr x)
        \<and> cast_ToInt64E stdlib v = Inr (float_to_int64 f)
        \<and> (0 \<le> f \<longrightarrow>
              (\<exists>x. cast_ToUint32E stdlib v = Inr x) \<and> (\<exists>x. cast_ToUint64E stdlib v = Inr x))
        \<and> (\<exists>g. cast_ToFloat32E stdlib v = Inr g)
        \<and> cast_ToFloat64E stdlib v = Inr f"
    by (cases v; clarsimp simp: stdlib_def)
qed

section \<open>Results\<close>

subsection \<open>Arrays and producers\<close>

text \<open>Neither \<^verbatim>\<open>Next\<close> nor the loop calls \<^verbatim>\<open>Close\<close>.\<close>

lemma Next_closes: "closes (snd (Next g)) = closes g"
  by (cases g; cases "script g") auto

lemma arrayT_Convert_loop_closes:
  "closes (snd (arrayT_Convert_loop conv g acc)) = closes g"
proof (induction conv g acc rule: arrayT_Convert_loop.induct)
  case (1 conv g acc)
  show ?case
  proof (cases "Next g")
    case (Pair a g')
    with Next_closes [of g] have c: "closes g' = closes g" by simp
    show ?thesis
    proof (cases a)
      case (Inl err)
      with Pair c show ?thesis
        by (subst arrayT_Convert_loop.simps) simp
    next
      case (Inr e)
      show ?thesis
      proof (cases "conv e")
        case (Ok e')
        with Pair Inr c "1.IH" [of a g' e e'] show ?thesis
          by (subst arrayT_Convert_loop.simps) simp
      next
        case (Err err)
        with Pair Inr c show ?thesis
          by (subst arrayT_Convert_loop.simps) simp
      next
        case (Panic p)
        with Pair Inr c show ?thesis
          by (subst arrayT_Convert_loop.simps) simp
      qed
    qed
  qed
qed

text \<open>So the conversion of a producer calls \<^verbatim>\<open>Close\<close> once when the loop ends by
  \<^verbatim>\<open>io.EOF\<close> and not at all when it ends by an error.\<close>

lemma arrayT_Convert_Generator_closes:
  "closes (snd (arrayT_Convert_Generator conv g)) =
     closes g + (case fst (arrayT_Convert_loop conv g []) of
                   Ok vs \<Rightarrow> 1 | Err err \<Rightarrow> 0 | Panic p \<Rightarrow> 0)"
proof (cases "arrayT_Convert_loop conv g []")
  case (Pair r g')
  with arrayT_Convert_loop_closes [of conv g "[]"] have c: "closes g' = closes g" by simp
  show ?thesis
  proof (cases r)
    case (Ok vs)
    with Pair c show ?thesis
      by (cases g') (auto simp: arrayT_Convert_Generator_def split: option.splits)
  next
    case (Err e)
    with Pair c show ?thesis by (simp add: arrayT_Convert_Generator_def)
  next
    case (Panic p)
    with Pair c show ?thesis by (simp add: arrayT_Convert_Generator_def)
  qed
qed

text \<open>
  C1. The claim is that \<^verbatim>\<open>Array(U).Convert\<close> calls \<^verbatim>\<open>Close\<close> on the producer
  exactly once on every exit path. The code calls it after the loop only, and both
  \<^verbatim>\<open>return nil, err\<close> inside the loop leave without it. Below: a producer of
  \<^verbatim>\<open>true\<close>, \<^verbatim>\<open>"x"\<close>, \<^verbatim>\<open>false\<close> converted by \<^verbatim>\<open>Array(Boolean)\<close>: the
  second element fails, the error reaches the caller, and the producer has been closed
  zero times; a producer whose second \<^verbatim>\<open>Next\<close> fails: the same; a producer that is
  drained: closed once.
\<close>

theorem arrayT_Convert_Generator_release:
  "arrayT_Convert_Generator (Convert L Boolean)
       (Generator ''gen'' [Inr (VBool True), Inr (VString ''x''), Inr (VBool False)] 0 None)
     = (Err (errorString ''unable to cast string to bool''),
        Generator ''gen'' [Inr (VBool False)] 0 None)
   \<and> Convert L (Array Boolean)
       (VGenerator
         (Generator ''gen'' [Inr (VBool True), Inr (VString ''x''), Inr (VBool False)] 0 None))
     = Err (errorString ''unable to cast string to bool'')
   \<and> arrayT_Convert_Generator (Convert L Boolean)
       (Generator ''gen'' [Inr (VBool True), Inl (errorString ''broken'')] 0 None)
     = (Err (errorString ''broken''), Generator ''gen'' [] 0 None)
   \<and> arrayT_Convert_Generator (Convert L Boolean)
       (Generator ''gen'' [Inr (VBool True), Inr (VBool False)] 0 None)
     = (Ok (VSlice [VBool True, VBool False]), Generator ''gen'' [] 1 None)"
  by (simp add: arrayT_Convert_Generator_def Boolean_def Array_def)

subsection \<open>Numbers\<close>

lemma numberT_Convert_cases:
  "Convert L Int32 v =
     (case cast_ToInt32E L (unix_if_time v) of Inl err \<Rightarrow> Err err | Inr x \<Rightarrow> Ok (VInt32 x))
   \<and> Convert L Int64 v =
     (case cast_ToInt64E L (unix_if_time v) of Inl err \<Rightarrow> Err err | Inr x \<Rightarrow> Ok (VInt64 x))
   \<and> Convert L Uint32 v =
     (case cast_ToUint32E L (unix_if_time v) of Inl err \<Rightarrow> Err err | Inr x \<Rightarrow> Ok (VUint32 x))
   \<and> Convert L Uint64 v =
     (case cast_ToUint64E L (unix_if_time v) of Inl err \<Rightarrow> Err err | Inr x \<Rightarrow> Ok (VUint64 x))
   \<and> Convert L Float32 v =
     (case cast_ToFloat32E L (unix_if_time v) of Inl err \<Rightarrow> Err err | Inr x \<Rightarrow> Ok (VFloat32 x))
   \<and> Convert L Float64 v =
     (case cast_ToFloat64E L (unix_if_time v) of Inl err \<Rightarrow> Err err | Inr x \<Rightarrow> Ok (VFloat64 x))"
  by (simp add: Int32_def Int64_def Uint32_def Uint64_def Float32_def Float64_def
      numberT_Convert_def split: sum.splits)

lemma float_value_not_time: "float_value v = Some f \<Longrightarrow> unix_if_time v = v"
  by (cases v) simp_all

text \<open>
  C2, as amended. For each of the six numeric variants of 32 and 64 bits,
  \<^verbatim>\<open>Convert\<close> coerces a numeric input to the width of the variant, a timestamp
  being first replaced by its Unix seconds: an integer of any kind goes to the integer
  variants as the same number modulo the width (to the unsigned ones when it is not
  negative) and to the float variants; a float goes to \<^verbatim>\<open>Int64\<close> by discarding the
  fraction, to \<^verbatim>\<open>Float64\<close> as it is, and to the other variants (to the unsigned
  ones when it is not negative). \<^verbatim>\<open>Convert\<close> returns an error exactly when the
  conversion of package cast refuses the input, and never panics. For the four variants
  of 8 and 16 bits it fails with \<^verbatim>\<open>ErrInvalidType\<close> on every input.
\<close>

theorem numberT_Convert_widths:
  assumes ints: "cast_converts_integers L" and floats: "cast_converts_floats L"
  shows
   "(int_value (unix_if_time v) = Some i \<longrightarrow>
        Convert L Int32 v = Ok (VInt32 (word_of_int i))
      \<and> Convert L Int64 v = Ok (VInt64 (word_of_int i))
      \<and> (0 \<le> i \<longrightarrow>
            Convert L Uint32 v = Ok (VUint32 (word_of_int i))
            \<and> Convert L Uint64 v = Ok (VUint64 (word_of_int i)))
      \<and> (\<exists>g. Convert L Float32 v = Ok (VFloat32 g))
      \<and> (\<exists>g. Convert L Float64 v = Ok (VFloat64 g)))
    \<and> (float_value v = Some f \<longrightarrow>
        (\<exists>x. Convert L Int32 v = Ok (VInt32 x))
      \<and> Convert L Int64 v = Ok (VInt64 (float_to_int64 f))
      \<and> (0 \<le> f \<longrightarrow>
            (\<exists>x. Convert L Uint32 v = Ok (VUint32 x))
            \<and> (\<exists>x. Convert L Uint64 v = Ok (VUint64 x)))
      \<and> (\<exists>g. Convert L Float32 v = Ok (VFloat32 g))
      \<and> Convert L Float64 v = Ok (VFloat64 f))
    \<and> int_value (unix_if_time (VTime ti)) = Some (sint (Unix ti))
    \<and> Convert L Int64 (VTime ti) = Ok (VInt64 (Unix ti))
    \<and> (Convert L Int32 v = Err e \<longleftrightarrow> cast_ToInt32E L (unix_if_time v) = Inl e)
    \<and> (Convert L Int64 v = Err e \<longleftrightarrow> cast_ToInt64E L (unix_if_time v) = Inl e)
    \<and> (Convert L Uint32 v = Err e \<longleftrightarrow> cast_ToUint32E L (unix_if_time v) = Inl e)
    \<and> (Convert L Uint64 v = Err e \<longleftrightarrow> cast_ToUint64E L (unix_if_time v) = Inl e)
    \<and> (Convert L Float32 v = Err e \<longleftrightarrow> cast_ToFloat32E L (unix_if_time v) = Inl e)
    \<and> (Convert L Float64 v = Err e \<longleftrightarrow> cast_ToFloat64E L (unix_if_time v) = Inl e)
    \<and> Convert L Int32 v \<noteq> Panic p \<and> Convert L Int64 v \<noteq> Panic p
    \<and> Convert L Uint32 v \<noteq> Panic p \<and> Convert L Uint64 v \<noteq> Panic p
    \<and> Convert L Float32 v \<noteq> Panic p \<and> Convert L Float64 v \<noteq> Panic p
    \<and> Convert L Int8 v = Err ErrInvalidType
    \<and> Convert L Uint8 v = Err ErrInvalidType
    \<and> Convert L Int16 v = Err ErrInvalidType
    \<and> Convert L Uint16 v = Err ErrInvalidType"
proof -
  note cases = numberT_Convert_cases [of L v]
  have integer: "Convert L Int32 v = Ok (VInt32 (word_of_int i))
      \<and> Convert L Int64 v = Ok (VInt64 (word_of_int i))
      \<and> (0 \<le> i \<longrightarrow>
            Convert L Uint32 v = Ok (VUint32 (word_of_int i))
            \<and> Convert L Uint64 v = Ok (VUint64 (word_of_int i)))
      \<and> (\<exists>g. Convert L Float32 v = Ok (VFloat32 g))
      \<and> (\<exists>g. Convert L Float64 v = Ok (VFloat64 g))"
    if "int_value (unix_if_time v) = Some i"
  proof -
    from ints that have c: "cast_ToInt32E L (unix_if_time v) = Inr (word_of_int i)
        \<and> cast_ToInt64E L (unix_if_time v) = Inr (word_of_int i)
        \<and> (0 \<le> i \<longrightarrow>
              cast_ToUint32E L (unix_if_time v) = Inr (word_of_int i)
              \<and> cast_ToUint64E L (unix_if_time v) = Inr (word_of_int i))
        \<and> (\<exists>g. cast_ToFloat32E L (unix_if_time v) = Inr g)
        \<and> (\<exists>g. cast_ToFloat64E L (unix_if_time v) = Inr g)"
      unfolding cast_converts_integers_def by blast
    then obtain g32 g64 where "cast_ToFloat32E L (unix_if_time v) = Inr g32"
      and "cast_ToFloat64E L (unix_if_time v) = Inr g64"
      by blast
    with c cases show ?thesis by simp
  qed
  have float: "(\<exists>x. Convert L Int32 v = Ok (VInt32 x))
      \<and> Convert L Int64 v = Ok (VInt64 (float_to_int64 f))
      \<and> (0 \<le> f \<longrightarrow>
            (\<exists>x. Convert L Uint32 v = Ok (VUint32 x))
            \<and> (\<exists>x. Convert L Uint64 v = Ok (VUint64 x)))
      \<and> (\<exists>g. Convert L Float32 v = Ok (VFloat32 g))
      \<and> Convert L Float64 v = Ok (VFloat64 f)"
    if "float_value v = Some f"
  proof -
    from that have same: "unix_if_time v = v" by (rule float_value_not_time)
    from floats that have c: "(\<exists>x. cast_ToInt32E L v = Inr x)
        \<and> cast_ToInt64E L v = Inr (float_to_int64 f)
        \<and> (0 \<le> f \<longrightarrow>
              (\<exists>x. cast_ToUint32E L v = Inr x) \<and> (\<exists>x. cast_ToUint64E L v = Inr x))
        \<and> (\<exists>g. cast_ToFloat32E L v = Inr g)
        \<and> cast_ToFloat64E L v = Inr f"
      unfolding cast_converts_floats_def by blast
    then obtain x32 g32 where x: "cast_ToInt32E L v = Inr x32" "cast_ToFloat32E L v = Inr g32"
      by blast
    have u: "(\<exists>x. Convert L Uint32 v = Ok (VUint32 x)) \<and> (\<exists>x. Convert L Uint64 v = Ok (VUint64 x))"
      if "0 \<le> f"
    proof -
      from c that obtain y32 y64 where "cast_ToUint32E L v = Inr y32"
        and "cast_ToUint64E L v = Inr y64"
        by blast
      with cases same show ?thesis by simp
    qed
    from c x cases same u show ?thesis by simp
  qed
  have time: "int_value (unix_if_time (VTime ti)) = Some (sint (Unix ti))
      \<and> Convert L Int64 (VTime ti) = Ok (VInt64 (Unix ti))"
  proof -
    have i: "int_value (unix_if_time (VTime ti)) = Some (sint (Unix ti))" by simp
    from ints i have "cast_ToInt64E L (unix_if_time (VTime ti)) = Inr (word_of_int (sint (Unix ti)))"
      unfolding cast_converts_integers_def by blast
    with i numberT_Convert_cases [of L "VTime ti"] show ?thesis by simp
  qed
  have fails: "(Convert L Int32 v = Err e \<longleftrightarrow> cast_ToInt32E L (unix_if_time v) = Inl e)
    \<and> (Convert L Int64 v = Err e \<longleftrightarrow> cast_ToInt64E L (unix_if_time v) = Inl e)
    \<and> (Convert L Uint32 v = Err e \<longleftrightarrow> cast_ToUint32E L (unix_if_time v) = Inl e)
    \<and> (Convert L Uint64 v = Err e \<longleftrightarrow> cast_ToUint64E L (unix_if_time v) = Inl e)
    \<and> (Convert L Float32 v = Err e \<longleftrightarrow> cast_ToFloat32E L (unix_if_time v) = Inl e)
    \<and> (Convert L Float64 v = Err e \<longleftrightarrow> cast_ToFloat64E L (unix_if_time v) = Inl e)"
    using cases by (simp split: sum.splits)
  have returns: "Convert L Int32 v \<noteq> Panic p \<and> Convert L Int64 v \<noteq> Panic p
    \<and> Convert L Uint32 v \<noteq> Panic p \<and> Convert L Uint64 v \<noteq> Panic p
    \<and> Convert L Float32 v \<noteq> Panic p \<and> Convert L Float64 v \<noteq> Panic p"
    using cases by (simp split: sum.splits)
  have small: "Convert L Int8 v = Err ErrInvalidType
    \<and> Convert L Uint8 v = Err ErrInvalidType
    \<and> Convert L Int16 v = Err ErrInvalidType
    \<and> Convert L Uint16 v = Err ErrInvalidType"
    by (simp add: Int8_def Uint8_def Int16_def Uint16_def numberT_Convert_def)
  from integer float time fails returns small show ?thesis by blast
qed

theorem numberT_Convert_widths_witness:
  "cast_converts_integers stdlib \<and> cast_converts_floats stdlib
   \<and> Convert stdlib Int32 (VInt8 5) = Ok (VInt32 5)
   \<and> Convert stdlib Int64 (VInt8 5) = Ok (VInt64 5)
   \<and> Convert stdlib Uint32 (VInt8 5) = Ok (VUint32 5)
   \<and> Convert stdlib Uint64 (VInt8 5) = Ok (VUint64 5)
   \<and> Convert stdlib Int64 (VFloat64 (3/2)) = Ok (VInt64 1)
   \<and> Convert stdlib Float64 (VFloat64 (3/2)) = Ok (VFloat64 (3/2))
   \<and> Convert stdlib Int64 (VTime \<lparr>unix = 1577923200, nsec = 0, zone = 0\<rparr>)
       = Ok (VInt64 1577923200)"
proof -
  have i: "int_value (unix_if_time (VInt8 5)) = Some 5" by simp
  have f: "float_value (VFloat64 (3/2)) = Some (3/2)" by simp
  have t: "float_to_int64 (3/2) = 1" by code_simp
  have u: "Unix \<lparr>unix = 1577923200, nsec = 0, zone = 0\<rparr> = 1577923200"
    by (simp add: Unix_def)
  from numberT_Convert_widths [OF stdlib_converts_integers stdlib_converts_floats,
      of "VInt8 5" 5 "3/2" "\<lparr>unix = 1577923200, nsec = 0, zone = 0\<rparr>" io_EOF "[]"] i u
  have a: "Convert stdlib Int32 (VInt8 5) = Ok (VInt32 5)
   \<and> Convert stdlib Int64 (VInt8 5) = Ok (VInt64 5)
   \<and> Convert stdlib Uint32 (VInt8 5) = Ok (VUint32 5)
   \<and> Convert stdlib Uint64 (VInt8 5) = Ok (VUint64 5)
   \<and> Convert stdlib Int64 (VTime \<lparr>unix = 1577923200, nsec = 0, zone = 0\<rparr>)
       = Ok (VInt64 1577923200)"
    by simp
  from numberT_Convert_widths [OF stdlib_converts_integers stdlib_converts_floats,
      of "VFloat64 (3/2)" 0 "3/2" "\<lparr>unix = 0, nsec = 0, zone = 0\<rparr>" io_EOF "[]"] f t
  have b: "Convert stdlib Int64 (VFloat64 (3/2)) = Ok (VInt64 1)
   \<and> Convert stdlib Float64 (VFloat64 (3/2)) = Ok (VFloat64 (3/2))"
    by simp
  from a b stdlib_converts_integers stdlib_converts_floats show ?thesis by simp
qed

text \<open>C2 as stated fails: \<^verbatim>\<open>Int8.Convert(int8(5))\<close>, a numeric input of the very
  width, is an error.\<close>

theorem numberT_Convert_Int8_counterexample:
  "Convert stdlib Int8 (VInt8 5) = Err ErrInvalidType"
  by (simp add: Int8_def numberT_Convert_def)

text \<open>
  C7. The variants of 8 and 16 bits are neither signed nor unsigned for the
  classification predicates, and their \<^verbatim>\<open>Compare\<close> is \<^verbatim>\<open>compareSigned\<close>, which
  casts both operands to \<^verbatim>\<open>int64\<close>; \<^verbatim>\<open>Int16.Compare(5, 3)\<close> and
  \<^verbatim>\<open>Uint16.Compare(5, 3)\<close> are 1.
\<close>

theorem small_widths_compare_signed:
  assumes "cast_int64_integers L"
  shows "Compare L Int8 a b = compareSigned L a b
    \<and> Compare L Uint8 a b = compareSigned L a b
    \<and> Compare L Int16 a b = compareSigned L a b
    \<and> Compare L Uint16 a b = compareSigned L a b
    \<and> \<not> IsUnsigned Int8 \<and> \<not> IsUnsigned Uint8 \<and> \<not> IsUnsigned Int16 \<and> \<not> IsUnsigned Uint16
    \<and> \<not> IsSigned Int8 \<and> \<not> IsSigned Uint8 \<and> \<not> IsSigned Int16 \<and> \<not> IsSigned Uint16
    \<and> Compare L Int16 (VInt 5) (VInt 3) = Ok 1
    \<and> Compare L Uint16 (VInt 5) (VInt 3) = Ok 1"
  using assms
  by (simp add: cast_int64_integers_def Int8_def Uint8_def Int16_def Uint16_def Int32_def
      Int64_def Uint32_def Uint64_def IsUnsigned_def IsSigned_def numberT_Compare_def
      compareSigned_def)

theorem small_widths_compare_signed_witness:
  "cast_int64_integers stdlib
   \<and> Compare stdlib Int16 (VInt 5) (VInt 3) = Ok 1
   \<and> Compare stdlib Uint16 (VInt 5) (VInt 3) = Ok 1"
  using small_widths_compare_signed [OF stdlib_int64_integers, of VNil VNil]
    stdlib_int64_integers
  by simp

lemma float_to_int64_trunc:
  "trunc_rat x = trunc_rat y \<Longrightarrow> float_to_int64 x = float_to_int64 y"
  by (simp add: float_to_int64_def)

text \<open>
  C10. The float variants are not unsigned for \<^verbatim>\<open>IsUnsigned\<close>, so their
  \<^verbatim>\<open>Compare\<close> is \<^verbatim>\<open>compareSigned\<close>, which casts both operands to \<^verbatim>\<open>int64\<close>
  and so discards the fractions: two floats with the same integer truncation compare
  as equal, as 1.5 and 1.2 do.
\<close>

theorem float_compare_truncates:
  assumes "cast_int64_floats L"
  shows "Compare L Float32 a b = compareSigned L a b
    \<and> Compare L Float64 a b = compareSigned L a b
    \<and> \<not> IsUnsigned Float32 \<and> \<not> IsUnsigned Float64
    \<and> (trunc_rat x = trunc_rat y \<longrightarrow>
          Compare L Float64 (VFloat64 x) (VFloat64 y) = Ok 0
          \<and> Compare L Float32 (VFloat32 x) (VFloat32 y) = Ok 0)
    \<and> Compare L Float64 (VFloat64 (3/2)) (VFloat64 (6/5)) = Ok 0"
proof -
  have t: "trunc_rat (3/2) = trunc_rat (6/5)" by code_simp
  show ?thesis
    using assms float_to_int64_trunc [of x y] float_to_int64_trunc [OF t]
    by (simp add: cast_int64_floats_def Float32_def Float64_def Uint32_def Uint64_def
        IsUnsigned_def numberT_Compare_def compareSigned_def)
qed

theorem float_compare_truncates_witness:
  "cast_int64_floats stdlib
   \<and> trunc_rat (3/2) = trunc_rat (5/4)
   \<and> Compare stdlib Float64 (VFloat64 (3/2)) (VFloat64 (5/4)) = Ok 0
   \<and> Compare stdlib Float32 (VFloat32 (3/2)) (VFloat32 (5/4)) = Ok 0
   \<and> Compare stdlib Float64 (VFloat64 (3/2)) (VFloat64 (6/5)) = Ok 0"
proof -
  have t: "trunc_rat (3/2) = trunc_rat (5/4)" by code_simp
  show ?thesis
    using float_compare_truncates [OF stdlib_int64_floats, of VNil VNil "3/2" "5/4"] t
      stdlib_int64_floats
    by simp
qed

subsection \<open>Boolean\<close>

text \<open>
  C4. The claim is that \<^verbatim>\<open>Boolean.Convert\<close> equals the reference definition on every
  input and always returns. The code does not: on the 64-bit integer zero
  (\<^verbatim>\<open>int64(0)\<close>) it returns true where the reference returns false, because the
  comparison \<^verbatim>\<open>b != 0\<close> is between interface values and \<^verbatim>\<open>0\<close> is an
  \<^verbatim>\<open>int\<close>; and on a 32-bit float it panics in the assertion \<^verbatim>\<open>v.(float64)\<close>
  instead of returning.
\<close>

theorem booleanT_Convert_differs_from_spec:
  "booleanT_Convert (VInt64 0) = Ok (VBool True)
   \<and> booleanT_Convert_spec (VInt64 0) = Ok (VBool False)
   \<and> booleanT_Convert (VInt 0) = Ok (VBool False)
   \<and> booleanT_Convert (VFloat32 (3/2))
       = Panic ''interface conversion: interface {} is float32, not float64''
   \<and> booleanT_Convert_spec (VFloat32 (3/2)) = Ok (VBool True)"
  by (simp add: booleanT_int_case_def booleanT_float_case_def math_Round_def)

subsection \<open>Rows\<close>

text \<open>
  C3. The claim is that \<^verbatim>\<open>CheckRow\<close> returns an error (and never panics), in
  particular for a nil value at the position of a column that is not nullable. There
  \<^verbatim>\<open>Check\<close> answers false and the code builds the error from
  \<^verbatim>\<open>reflect.TypeOf(v).String()\<close>, which panics for nil. The mismatch of lengths is
  returned as claimed.
\<close>

theorem CheckRow_nil_panics:
  "CheckRow L
     [\<lparr>Name = ''id'', Type = Int64, Default = VNil, Nullable = False, Source = ''t''\<rparr>]
     [VNil]
   = Panic ''invalid memory address or nil pointer dereference''
   \<and> CheckRow L
     [\<lparr>Name = ''a'', Type = Int64, Default = VNil, Nullable = False, Source = ''t''\<rparr>,
      \<lparr>Name = ''b'', Type = Text, Default = VNil, Nullable = False, Source = ''t''\<rparr>,
      \<lparr>Name = ''c'', Type = Boolean, Default = VNil, Nullable = True, Source = ''t''\<rparr>]
     [VInt 1, VString ''x'']
   = Err (ErrUnexpectedRowLength 3 2)"
  by (simp add: CheckRow_def Check_def)

subsection \<open>Timestamp and Date\<close>

text \<open>
  C5. For a string, \<^verbatim>\<open>Timestamp.Convert\<close> returns the UTC time of the first layout
  that parses it, in the order primary layout, date only, RFC 3339, compact date and
  time, compact date, and fails with \<^verbatim>\<open>ErrConvertingToTime\<close> when none does.
  \<^verbatim>\<open>"2020-01-02"\<close>, which the primary layout does not parse and the date-only
  layout parses as midnight UTC of that day, gives that time; \<^verbatim>\<open>"not-a-date"\<close>,
  which no layout parses, gives the error.
\<close>

theorem timestampT_Convert_layouts:
  "Convert L Timestamp (VString s) =
     (case find (\<lambda>layout. \<not> isl (time_Parse L layout s)) (TimestampLayout # TimestampLayouts) of
        None \<Rightarrow> Err (ErrConvertingToTime s)
      | Some layout \<Rightarrow> Ok (VTime (UTC (projr (time_Parse L layout s)))))
   \<and> TimestampLayout # TimestampLayouts =
       [''2006-01-02 15:04:05'', ''2006-01-02'', ''2006-01-02T15:04:05Z07:00'',
        ''20060102150405'', ''20060102'']
   \<and> (isl (time_Parse L TimestampLayout ''2020-01-02'')
        \<and> time_Parse L ''2006-01-02'' ''2020-01-02''
            = Inr \<lparr>unix = days_from_civil 2020 1 2 * 86400, nsec = 0, zone = 0\<rparr>
        \<longrightarrow> Convert L Timestamp (VString ''2020-01-02'')
            = Ok (VTime \<lparr>unix = days_from_civil 2020 1 2 * 86400, nsec = 0, zone = 0\<rparr>))
   \<and> ((\<forall>layout\<in>set (TimestampLayout # TimestampLayouts).
           isl (time_Parse L layout ''not-a-date''))
        \<longrightarrow> Convert L Timestamp (VString ''not-a-date'')
            = Err (ErrConvertingToTime ''not-a-date''))"
proof -
  have chain: "Convert L Timestamp (VString s) =
     (case find (\<lambda>layout. \<not> isl (time_Parse L layout s)) (TimestampLayout # TimestampLayouts) of
        None \<Rightarrow> Err (ErrConvertingToTime s)
      | Some layout \<Rightarrow> Ok (VTime (UTC (projr (time_Parse L layout s)))))" for s
    by (simp add: Timestamp_def TimestampLayouts_def split: sum.splits)
  have layouts: "TimestampLayout # TimestampLayouts =
       [''2006-01-02 15:04:05'', ''2006-01-02'', ''2006-01-02T15:04:05Z07:00'',
        ''20060102150405'', ''20060102'']"
    by (simp add: TimestampLayout_def TimestampLayouts_def time_RFC3339_def)
  have date: "Convert L Timestamp (VString ''2020-01-02'')
            = Ok (VTime \<lparr>unix = days_from_civil 2020 1 2 * 86400, nsec = 0, zone = 0\<rparr>)"
    if "isl (time_Parse L TimestampLayout ''2020-01-02'')"
      and "time_Parse L ''2006-01-02'' ''2020-01-02''
            = Inr \<lparr>unix = days_from_civil 2020 1 2 * 86400, nsec = 0, zone = 0\<rparr>"
    using that by (simp add: chain TimestampLayouts_def UTC_def)
  have none: "Convert L Timestamp (VString ''not-a-date'')
            = Err (ErrConvertingToTime ''not-a-date'')"
    if "\<forall>layout\<in>set (TimestampLayout # TimestampLayouts).
           isl (time_Parse L layout ''not-a-date'')"
    using that by (simp add: chain TimestampLayouts_def)
  from chain layouts date none show ?thesis by blast
qed

theorem timestampT_Convert_layouts_witness:
  "isl (time_Parse stdlib TimestampLayout ''2020-01-02'')
   \<and> time_Parse stdlib ''2006-01-02'' ''2020-01-02''
       = Inr \<lparr>unix = days_from_civil 2020 1 2 * 86400, nsec = 0, zone = 0\<rparr>
   \<and> Convert stdlib Timestamp (VString ''2020-01-02'')
       = Ok (VTime \<lparr>unix = 1577923200, nsec = 0, zone = 0\<rparr>)
   \<and> list_all (\<lambda>layout. isl (time_Parse stdlib layout ''not-a-date''))
         (TimestampLayout # TimestampLayouts)
   \<and> Convert stdlib Timestamp (VString ''not-a-date'')
       = Err (ErrConvertingToTime ''not-a-date'')"
proof -
  have p1: "isl (time_Parse stdlib TimestampLayout ''2020-01-02'')" by code_simp
  have p2: "time_Parse stdlib ''2006-01-02'' ''2020-01-02''
       = Inr \<lparr>unix = days_from_civil 2020 1 2 * 86400, nsec = 0, zone = 0\<rparr>"
    by code_simp
  have p3: "list_all (\<lambda>layout. isl (time_Parse stdlib layout ''not-a-date''))
         (TimestampLayout # TimestampLayouts)"
    by code_simp
  have d: "days_from_civil 2020 1 2 * 86400 = 1577923200" by code_simp
  from p3 have p3': "\<forall>layout\<in>set (TimestampLayout # TimestampLayouts).
           isl (time_Parse stdlib layout ''not-a-date'')"
    by (simp only: list_all_iff)
  show ?thesis
    using timestampT_Convert_layouts [of stdlib "''x''"] p1 p2 p3 p3' d by simp
qed

lemma trunc_day: "(u + 62135596800) mod 86400 = (u::int) mod 86400"
proof -
  have "(62135596800::int) = 86400 * 719162" by simp
  then show ?thesis by (metis mod_mult_self2)
qed

lemma truncateDate_props:
  "unix (truncateDate t) mod 86400 = 0 \<and> nsec (truncateDate t) = 0
   \<and> zone (truncateDate t) = zone t
   \<and> unix (truncateDate t) \<le> unix t \<and> unix t < unix (truncateDate t) + 86400"
proof -
  have m: "0 \<le> unix t mod 86400" "unix t mod 86400 < 86400" by simp_all
  have z: "(unix t - unix t mod 86400) mod 86400 = 0" by (simp add: minus_mod_eq_div_mult)
  show ?thesis using m z by (simp add: truncateDate_def Let_def trunc_day)
qed

lemma time_of_number_not_nullT:
  "cast_rejects_nullT L \<Longrightarrow> time_of_number L VNullT = Err ErrInvalidType"
  by (auto simp: cast_rejects_nullT_def time_of_number_def numberT_Convert_def)

lemma dateT_Convert_Ok:
  assumes "dateT_Convert L v = Ok c"
  shows "\<exists>t. c = VTime (UTC (truncateDate t))"
  using assms by (cases v) (auto split: sum.splits res.splits)

lemma dateT_Convert_Time:
  "dateT_Convert L (VTime x) = Ok c \<Longrightarrow> c = VTime (UTC (truncateDate x))"
  by auto

lemma dateT_Convert_nullT:
  "cast_rejects_nullT L \<Longrightarrow> dateT_Convert L VNullT = Err ErrInvalidType"
  by (simp add: time_of_number_not_nullT)

lemma UTC_props: "unix (UTC t) = unix t \<and> nsec (UTC t) = nsec t \<and> zone (UTC t) = 0"
  by (simp add: UTC_def)

text \<open>
  C8. For every input that \<^verbatim>\<open>Date.Convert\<close> accepts, \<^verbatim>\<open>Date.SQL\<close> returns a
  value with the wire tag of Timestamp, not of Date, whose bytes are the converted
  value, the start of a day in UTC, formatted with the layout \<^verbatim>\<open>2006-01-02\<close>; for
  a time it is the start of the day of that time.
\<close>

theorem dateT_SQL_tagged_Timestamp:
  assumes "cast_rejects_nullT L" and "Convert L Date v = Ok c"
  shows "\<exists>t. c = VTime t \<and> zone t = 0 \<and> nsec t = 0 \<and> unix t mod 86400 = 0
           \<and> dateT_SQL L v = Ok (MakeTrusted sqltypes_Timestamp (time_Format L t DateLayout))
           \<and> value_typ (MakeTrusted sqltypes_Timestamp (time_Format L t DateLayout)) \<noteq> sqltypes_Date
           \<and> DateLayout = ''2006-01-02''
           \<and> (\<forall>x. v = VTime x \<longrightarrow> unix t \<le> unix x \<and> unix x < unix t + 86400)"
proof -
  from assms(2) have conv: "dateT_Convert L v = Ok c" by (simp add: Date_def)
  then obtain t0 where c: "c = VTime (UTC (truncateDate t0))"
    using dateT_Convert_Ok by blast
  define t where "t = UTC (truncateDate t0)"
  from conv dateT_Convert_nullT [OF assms(1)] have nn: "v \<noteq> VNullT" by auto
  have sql: "dateT_SQL L v = Ok (MakeTrusted sqltypes_Timestamp (time_Format L t DateLayout))"
    using conv c nn by (simp add: dateT_SQL_def t_def)
  have day: "zone t = 0 \<and> nsec t = 0 \<and> unix t mod 86400 = 0"
    using truncateDate_props [of t0] UTC_props [of "truncateDate t0"] by (simp add: t_def)
  have tag: "value_typ (MakeTrusted sqltypes_Timestamp (time_Format L t DateLayout))
      \<noteq> sqltypes_Date"
    by (simp add: MakeTrusted_def)
  have within: "unix t \<le> unix x \<and> unix x < unix t + 86400" if "v = VTime x" for x
  proof -
    from conv that have "c = VTime (UTC (truncateDate x))" by (simp add: dateT_Convert_Time)
    with c have "t = UTC (truncateDate x)" by (simp add: t_def)
    then show ?thesis
      using truncateDate_props [of x] UTC_props [of "truncateDate x"] by simp
  qed
  have "c = VTime t" using c by (simp add: t_def)
  with sql day tag within show ?thesis
    by (intro exI [of _ t]) (simp add: DateLayout_def)
qed

theorem dateT_SQL_tagged_Timestamp_witness:
  "cast_rejects_nullT stdlib
   \<and> Convert stdlib Date (VString ''2020-01-02'')
       = Ok (VTime \<lparr>unix = 1577923200, nsec = 0, zone = 0\<rparr>)
   \<and> dateT_SQL stdlib (VString ''2020-01-02'')
       = Ok \<lparr>value_typ = sqltypes_Timestamp, value_val = ''2020-01-02''\<rparr>"
proof -
  have conv: "Convert stdlib Date (VString ''2020-01-02'')
       = Ok (VTime \<lparr>unix = 1577923200, nsec = 0, zone = 0\<rparr>)"
    by code_simp
  have fmt: "time_Format stdlib \<lparr>unix = 1577923200, nsec = 0, zone = 0\<rparr> DateLayout
       = ''2020-01-02''"
    by code_simp
  from dateT_SQL_tagged_Timestamp [OF stdlib_rejects_nullT conv] fmt conv stdlib_rejects_nullT
  show ?thesis by (auto simp: MakeTrusted_def)
qed

subsection \<open>Tuples\<close>

lemma tuple_loop_Ok_iff:
  "length vs = length ts \<Longrightarrow>
   tupleT_Convert_loop L ts vs = Ok cs \<longleftrightarrow>
     length cs = length ts \<and> (\<forall>i<length ts. Convert L (ts ! i) (vs ! i) = Ok (cs ! i))"
proof (induction ts arbitrary: vs cs)
  case Nil
  then show ?case by auto
next
  case (Cons t ts)
  then obtain x xs where vs: "vs = x # xs" and len: "length xs = length ts"
    by (cases vs) auto
  show ?case
  proof (cases cs)
    case Nil
    then show ?thesis using vs by (auto split: res.splits)
  next
    case (Cons c cs')
    show ?thesis
      using Cons.IH [OF len, of cs'] vs Cons
      by (auto simp: All_less_Suc2 split: res.splits)
  qed
qed

lemma tuple_loop_all_Ok:
  "length vs = length ts \<Longrightarrow> \<forall>i<length ts. \<exists>c. Convert L (ts ! i) (vs ! i) = Ok c \<Longrightarrow>
   \<exists>cs. tupleT_Convert_loop L ts vs = Ok cs"
proof (induction ts arbitrary: vs)
  case Nil
  then show ?case by simp
next
  case (Cons t ts)
  then obtain x xs where vs: "vs = x # xs" and len: "length xs = length ts"
    by (cases vs) auto
  from Cons.prems(2) vs obtain c where c: "Convert L t x = Ok c" by auto
  from Cons.prems(2) vs have "\<forall>i<length ts. \<exists>c. Convert L (ts ! i) (xs ! i) = Ok c"
    by (auto simp: All_less_Suc2)
  from Cons.IH [OF len this] obtain cs where "tupleT_Convert_loop L ts xs = Ok cs" ..
  with c vs show ?case by simp
qed

lemma tuple_loop_first_Err:
  "length vs = length ts \<Longrightarrow> i < length ts \<Longrightarrow>
   \<forall>j<i. \<exists>c. Convert L (ts ! j) (vs ! j) = Ok c \<Longrightarrow>
   Convert L (ts ! i) (vs ! i) = Err e \<Longrightarrow>
   tupleT_Convert_loop L ts vs = Err e"
proof (induction ts arbitrary: vs i)
  case Nil
  then show ?case by simp
next
  case (Cons t ts)
  then obtain x xs where vs: "vs = x # xs" and len: "length xs = length ts"
    by (cases vs) auto
  show ?case
  proof (cases i)
    case 0
    with Cons.prems vs show ?thesis by simp
  next
    case (Suc k)
    with Cons.prems vs obtain c where c: "Convert L t x = Ok c" by auto
    from Suc Cons.prems vs have "\<forall>j<k. \<exists>c. Convert L (ts ! j) (xs ! j) = Ok c"
      by (auto simp: All_less_Suc2)
    from Cons.IH [OF len _ this] Suc Cons.prems vs
    have "tupleT_Convert_loop L ts xs = Err e" by simp
    with c vs show ?thesis by simp
  qed
qed

text \<open>
  C9. \<^verbatim>\<open>Convert\<close> of a tuple type of arity n succeeds exactly on a
  \<^verbatim>\<open>[]interface{}\<close> of n elements that the component types convert, and its
  result is the sequence of the converted elements; another length is
  \<^verbatim>\<open>ErrInvalidColumnNumber\<close>, another kind of value \<^verbatim>\<open>ErrNotTuple\<close>, and the
  error of the first element that fails is returned.
\<close>

theorem tupleT_Convert_arity:
  "((\<exists>r. Convert L (Tuple ts) v = Ok r) \<longleftrightarrow>
      (\<exists>vs. v = VSlice vs \<and> length vs = length ts
            \<and> (\<forall>i<length ts. \<exists>c. Convert L (ts ! i) (vs ! i) = Ok c)))
   \<and> (length vs = length ts \<longrightarrow>
        (Convert L (Tuple ts) (VSlice vs) = Ok r \<longleftrightarrow>
          (\<exists>cs. r = VSlice cs \<and> length cs = length ts
             \<and> (\<forall>i<length ts. Convert L (ts ! i) (vs ! i) = Ok (cs ! i)))))
   \<and> (length vs \<noteq> length ts \<longrightarrow>
        Convert L (Tuple ts) (VSlice vs) = Err (ErrInvalidColumnNumber (length ts) (length vs)))
   \<and> ((\<forall>xs. v \<noteq> VSlice xs) \<longrightarrow> Convert L (Tuple ts) v = Err ErrNotTuple)
   \<and> (length vs = length ts \<and> i < length ts
        \<and> (\<forall>j<i. \<exists>c. Convert L (ts ! j) (vs ! j) = Ok c)
        \<and> Convert L (ts ! i) (vs ! i) = Err e
        \<longrightarrow> Convert L (Tuple ts) (VSlice vs) = Err e)
   \<and> (cast_int64_integers L \<and> cast_identity L \<longrightarrow>
        Convert L (Tuple [Int64, Text]) (VSlice [VInt 1, VString ''a''])
          = Ok (VSlice [VInt64 1, VString ''a'']))
   \<and> Convert L (Tuple [Int64, Text]) (VSlice [VInt 1]) = Err (ErrInvalidColumnNumber 2 1)"
proof -
  have right: "Convert L (Tuple ts) (VSlice vs) = Ok r \<longleftrightarrow>
          (\<exists>cs. r = VSlice cs \<and> length cs = length ts
             \<and> (\<forall>i<length ts. Convert L (ts ! i) (vs ! i) = Ok (cs ! i)))"
    if "length vs = length ts" for vs r
  proof -
    have "Convert L (Tuple ts) (VSlice vs) = Ok r \<longleftrightarrow>
        (\<exists>cs. r = VSlice cs \<and> tupleT_Convert_loop L ts vs = Ok cs)"
      using that by (auto simp: Tuple_def split: res.splits)
    then show ?thesis
      by (simp only: tuple_loop_Ok_iff [OF that])
  qed
  have wrong: "Convert L (Tuple ts) (VSlice vs) = Err (ErrInvalidColumnNumber (length ts) (length vs))"
    if "length vs \<noteq> length ts" for vs
    using that by (simp add: Tuple_def)
  have nottuple: "Convert L (Tuple ts) v = Err ErrNotTuple" if "\<forall>xs. v \<noteq> VSlice xs"
    using that by (cases v) (simp_all add: Tuple_def)
  have first: "Convert L (Tuple ts) (VSlice vs) = Err e"
    if "length vs = length ts \<and> i < length ts
        \<and> (\<forall>j<i. \<exists>c. Convert L (ts ! j) (vs ! j) = Ok c)
        \<and> Convert L (ts ! i) (vs ! i) = Err e"
    using that tuple_loop_first_Err [of vs ts i L e] by (simp add: Tuple_def)
  have succeeds: "(\<exists>r. Convert L (Tuple ts) v = Ok r) \<longleftrightarrow>
      (\<exists>vs. v = VSlice vs \<and> length vs = length ts
            \<and> (\<forall>i<length ts. \<exists>c. Convert L (ts ! i) (vs ! i) = Ok c))"
  proof
    assume "\<exists>r. Convert L (Tuple ts) v = Ok r"
    then obtain r where r: "Convert L (Tuple ts) v = Ok r" ..
    then obtain xs where v: "v = VSlice xs" using nottuple by fastforce
    with r wrong [of xs] have len: "length xs = length ts" by fastforce
    with r v right [of xs r] show "\<exists>vs. v = VSlice vs \<and> length vs = length ts
            \<and> (\<forall>i<length ts. \<exists>c. Convert L (ts ! i) (vs ! i) = Ok c)"
      by blast
  next
    assume "\<exists>vs. v = VSlice vs \<and> length vs = length ts
            \<and> (\<forall>i<length ts. \<exists>c. Convert L (ts ! i) (vs ! i) = Ok c)"
    then obtain xs where v: "v = VSlice xs" and len: "length xs = length ts"
      and all: "\<forall>i<length ts. \<exists>c. Convert L (ts ! i) (xs ! i) = Ok c"
      by blast
    from tuple_loop_all_Ok [OF len all] obtain cs
      where "tupleT_Convert_loop L ts xs = Ok cs" ..
    with v len show "\<exists>r. Convert L (Tuple ts) v = Ok r" by (simp add: Tuple_def)
  qed
  have ex1: "Convert L (Tuple [Int64, Text]) (VSlice [VInt 1, VString ''a''])
          = Ok (VSlice [VInt64 1, VString ''a''])"
    if "cast_int64_integers L \<and> cast_identity L"
    using that
    by (simp add: Tuple_def Int64_def Text_def numberT_Convert_def textT_Convert_def
        cast_int64_integers_def cast_identity_def)
  have ex2: "Convert L (Tuple [Int64, Text]) (VSlice [VInt 1]) = Err (ErrInvalidColumnNumber 2 1)"
    by (simp add: Tuple_def)
  from succeeds right wrong nottuple first ex1 ex2 show ?thesis by blast
qed

theorem tupleT_Convert_arity_witness:
  "cast_int64_integers stdlib \<and> cast_identity stdlib
   \<and> Convert stdlib (Tuple [Int64, Text]) (VSlice [VInt 1, VString ''a''])
       = Ok (VSlice [VInt64 1, VString ''a''])
   \<and> Convert stdlib (Tuple [Int64, Text]) (VSlice [VInt 1]) = Err (ErrInvalidColumnNumber 2 1)
   \<and> Convert stdlib (Tuple [Int64, Text]) (VInt 1) = Err ErrNotTuple
   \<and> Convert stdlib (Tuple [Int64, Boolean]) (VSlice [VInt 1, VString ''a''])
       = Err (errorString ''unable to cast string to bool'')"
proof -
  have e: "Convert stdlib (Tuple [Int64, Text]) (VInt 1) = Err ErrNotTuple"
    "Convert stdlib (Tuple [Int64, Boolean]) (VSlice [VInt 1, VString ''a''])
       = Err (errorString ''unable to cast string to bool'')"
    by code_simp+
  from tupleT_Convert_arity [of stdlib "[Int64, Text]" VNil "[]" VNil 0 io_EOF] e
    stdlib_int64_integers stdlib_identity
  show ?thesis by simp
qed

subsection \<open>Idempotence\<close>

lemma returned_Ok: "returned box r = Ok c \<Longrightarrow> \<exists>x. r = Inr x \<and> c = box x"
  by (cases r) auto

lemma idem_null: "idempotent_on L nullT"
  by (auto simp: idempotent_on_def nullT_Convert_def nullT_Compare_def split: if_splits)

lemma Before_irrefl: "\<not> Before t t"
  by (simp add: Before_def)

lemma idem_timestamp: "idempotent_on L timestampT"
proof -
  have "\<exists>t. c = VTime t" if "timestampT_Convert L v = Ok c" for v c
    using that by (cases v) (auto split: sum.splits option.splits res.splits)
  then show ?thesis
    by (fastforce simp: idempotent_on_def timestampT_Compare_def After_def Before_irrefl)
qed

lemma idem_date: "idempotent_on L dateT"
proof -
  have "\<exists>t. c = VTime t" if "dateT_Convert L v = Ok c" for v c
    using that by (cases v) (auto split: sum.splits option.splits res.splits)
  then show ?thesis
    by (fastforce simp: idempotent_on_def dateT_Compare_def After_def Before_irrefl)
qed

lemma idem_text: "cast_identity L \<Longrightarrow> idempotent_on L textT"
  by (auto simp: idempotent_on_def textT_Convert_def textT_Compare_def bytes_Compare_def
      cast_identity_def split: sum.splits)

lemma idem_boolean: "idempotent_on L booleanT"
proof -
  have "\<exists>b. c = VBool b" if "booleanT_Convert v = Ok c" for v c
    using that
    by (cases v)
      (auto simp: booleanT_int_case_def booleanT_float_case_def
        split: if_splits option.splits)
  then show ?thesis
    by (fastforce simp: idempotent_on_def booleanT_Compare_def uncomparable_def)
qed

lemma idem_blob: "idempotent_on L blobT"
proof -
  have "\<exists>b. c = VBytes b" if "blobT_Convert L v = Ok c" for v c
    using that by (cases v) (auto split: option.splits)
  then show ?thesis
    by (fastforce simp: idempotent_on_def blobT_Compare_def bytes_Compare_def)
qed

lemma idem_json: "json_marshals_bytes L \<Longrightarrow> idempotent_on L jsonT"
proof -
  assume j: "json_marshals_bytes L"
  have b: "\<exists>b. c = VBytes b" if "jsonT_Convert L v = Ok c" for v c
    using that by (cases v) (auto split: sum.splits dest: returned_Ok)
  have again: "\<exists>c'. jsonT_Convert L (VBytes b) = Ok c'" for b
    using j by (auto simp: json_marshals_bytes_def dest: spec [of _ b])
  show ?thesis
    unfolding idempotent_on_def
  proof (intro allI impI)
    fix v c assume "Convert L jsonT v = Ok c"
    then obtain bs where "c = VBytes bs" using b by auto
    then show "(\<exists>c'. Convert L jsonT c = Ok c') \<and> Compare L jsonT c c = Ok 0"
      using again [of bs] by (simp add: jsonT_Compare_def bytes_Compare_def)
  qed
qed


lemma idem_number:
  assumes i: "cast_int64_integers L" and f: "cast_int64_floats L" and k: "cast_identity L"
    and u: "cast_uint64_unsigned L"
  shows "idempotent_on L (numberT q)"
  unfolding idempotent_on_def
proof (intro allI impI)
  fix v c assume conv: "Convert L (numberT q) v = Ok c"
  then have sw: "numberT_Convert_switch L q (unix_if_time v) = Ok c"
    by (simp add: numberT_Convert_def)
  show "(\<exists>c'. Convert L (numberT q) c = Ok c') \<and> Compare L (numberT q) c c = Ok 0"
  proof (cases q)
    case sqltypes_Int32
    with sw obtain x where "c = VInt32 x" by (auto dest: returned_Ok)
    with sqltypes_Int32 i k show ?thesis
      by (simp add: numberT_Convert_def numberT_Compare_def IsUnsigned_def Uint32_def
          Uint64_def compareSigned_def cast_int64_integers_def cast_identity_def)
  next
    case sqltypes_Int64
    with sw obtain x where "c = VInt64 x" by (auto dest: returned_Ok)
    with sqltypes_Int64 i k show ?thesis
      by (simp add: numberT_Convert_def numberT_Compare_def IsUnsigned_def Uint32_def
          Uint64_def compareSigned_def cast_int64_integers_def cast_identity_def)
  next
    case sqltypes_Uint32
    with sw obtain x where "c = VUint32 x" by (auto dest: returned_Ok)
    with sqltypes_Uint32 u k show ?thesis
      by (simp add: numberT_Convert_def numberT_Compare_def IsUnsigned_def Uint32_def
          Uint64_def compareUnsigned_def cast_uint64_unsigned_def cast_identity_def)
  next
    case sqltypes_Uint64
    with sw obtain x where "c = VUint64 x" by (auto dest: returned_Ok)
    with sqltypes_Uint64 u k show ?thesis
      by (simp add: numberT_Convert_def numberT_Compare_def IsUnsigned_def Uint32_def
          Uint64_def compareUnsigned_def cast_uint64_unsigned_def cast_identity_def)
  next
    case sqltypes_Float32
    with sw obtain x where "c = VFloat32 x" by (auto dest: returned_Ok)
    with sqltypes_Float32 f k show ?thesis
      by (simp add: numberT_Convert_def numberT_Compare_def IsUnsigned_def Uint32_def
          Uint64_def compareSigned_def cast_int64_floats_def cast_identity_def)
  next
    case sqltypes_Float64
    with sw obtain x where "c = VFloat64 x" by (auto dest: returned_Ok)
    with sqltypes_Float64 f k show ?thesis
      by (simp add: numberT_Convert_def numberT_Compare_def IsUnsigned_def Uint32_def
          Uint64_def compareSigned_def cast_int64_floats_def cast_identity_def)
  qed (use sw in simp_all)
qed

lemma tupleT_Convert_loop_Cons:
  "tupleT_Convert_loop L (t # ts) vs = Ok cs \<Longrightarrow>
   \<exists>x xs c0 cs0. vs = x # xs \<and> cs = c0 # cs0 \<and> Convert L t x = Ok c0
     \<and> tupleT_Convert_loop L ts xs = Ok cs0"
  by (cases vs) (auto split: res.splits)

lemma tuple_loops_idem:
  assumes "\<forall>t\<in>set ts. idempotent_on L t" and "tupleT_Convert_loop L ts vs = Ok cs"
  shows "length cs = length ts
    \<and> (\<exists>cs'. tupleT_Convert_loop L ts cs = Ok cs'
          \<and> tupleT_Compare_loop L ts cs' cs' = Ok 0)"
  using assms
proof (induction ts arbitrary: vs cs)
  case Nil
  then show ?case by simp
next
  case (Cons t ts)
  from tupleT_Convert_loop_Cons [OF Cons.prems(2)]
  obtain x xs c0 cs0 where vs: "vs = x # xs" and cs: "cs = c0 # cs0"
    and c0: "Convert L t x = Ok c0" and rest: "tupleT_Convert_loop L ts xs = Ok cs0"
    by blast
  from Cons.prems(1) have t: "idempotent_on L t" and ts: "\<forall>t\<in>set ts. idempotent_on L t"
    by simp_all
  from t c0 obtain c0' where c0': "Convert L t c0 = Ok c0'"
    by (auto simp: idempotent_on_def)
  with t have cmp: "Compare L t c0' c0' = Ok 0"
    by (auto simp: idempotent_on_def)
  from Cons.IH [OF ts rest] obtain cs0' where len: "length cs0 = length ts"
    and again: "tupleT_Convert_loop L ts cs0 = Ok cs0'"
    and loop: "tupleT_Compare_loop L ts cs0' cs0' = Ok 0"
    by blast
  from cs len c0' again cmp loop show ?case by simp
qed

lemma idem_tuple:
  assumes "\<forall>t\<in>set ts. idempotent_on L t"
  shows "idempotent_on L (tupleT ts)"
  unfolding idempotent_on_def
proof (intro allI impI)
  fix v c assume conv: "Convert L (tupleT ts) v = Ok c"
  then obtain vs cs where "v = VSlice vs" and c: "c = VSlice cs"
    and loop: "tupleT_Convert_loop L ts vs = Ok cs"
    by (cases v) (auto split: if_splits res.splits)
  from tuple_loops_idem [OF assms loop] obtain cs' where len: "length cs = length ts"
    and again: "tupleT_Convert_loop L ts cs = Ok cs'"
    and cmp: "tupleT_Compare_loop L ts cs' cs' = Ok 0"
    by blast
  from c len again cmp
  show "(\<exists>c'. Convert L (tupleT ts) c = Ok c') \<and> Compare L (tupleT ts) c c = Ok 0"
    by simp
qed

lemma arrayT_Convert_slice_sources:
  "arrayT_Convert_slice conv vs = Ok cs \<Longrightarrow> \<forall>c\<in>set cs. \<exists>x. conv x = Ok c"
  by (induction vs arbitrary: cs) (auto split: res.splits)

lemma arrayT_Convert_loop_sources:
  "arrayT_Convert_loop conv g acc = (Ok cs, g') \<Longrightarrow> \<forall>c\<in>set acc. \<exists>x. conv x = Ok c \<Longrightarrow>
   \<forall>c\<in>set cs. \<exists>x. conv x = Ok c"
proof (induction conv g acc rule: arrayT_Convert_loop.induct)
  case (1 conv g acc)
  obtain a g1 where n: "Next g = (a, g1)" by (cases "Next g")
  show ?case
  proof (cases a)
    case (Inl err)
    with n "1.prems" show ?thesis
      by (subst (asm) arrayT_Convert_loop.simps) (auto split: if_splits)
  next
    case (Inr e)
    show ?thesis
    proof (cases "conv e")
      case (Ok e')
      with n Inr "1.prems"(1)
      have "arrayT_Convert_loop conv g1 (acc @ [e']) = (Ok cs, g')"
        by (subst (asm) arrayT_Convert_loop.simps) simp
      moreover have "\<forall>c\<in>set (acc @ [e']). \<exists>x. conv x = Ok c"
        using "1.prems"(2) Ok by auto
      ultimately show ?thesis
        by (rule "1.IH" [OF n [symmetric] Inr Ok])
    next
      case (Err err)
      with n Inr "1.prems"(1) show ?thesis
        by (subst (asm) arrayT_Convert_loop.simps) simp
    next
      case (Panic p)
      with n Inr "1.prems"(1) show ?thesis
        by (subst (asm) arrayT_Convert_loop.simps) simp
    qed
  qed
qed

lemma array_loops_idem:
  assumes "idempotent_on L u" and "\<forall>c\<in>set cs. \<exists>x. Convert L u x = Ok c"
  shows "\<exists>cs'. arrayT_Convert_slice (Convert L u) cs = Ok cs' \<and> length cs' = length cs
    \<and> arrayT_Compare_loop (Compare L u) cs' cs' = Ok 0"
  using assms(2)
proof (induction cs)
  case Nil
  then show ?case by simp
next
  case (Cons c0 cs)
  then obtain x where "Convert L u x = Ok c0" by auto
  with assms(1) obtain c0' where c0': "Convert L u c0 = Ok c0'"
    by (auto simp: idempotent_on_def)
  with assms(1) have cmp: "Compare L u c0' c0' = Ok 0"
    by (auto simp: idempotent_on_def)
  from Cons obtain cs' where "arrayT_Convert_slice (Convert L u) cs = Ok cs'"
    and "length cs' = length cs" and "arrayT_Compare_loop (Compare L u) cs' cs' = Ok 0"
    by auto
  with c0' cmp show ?case by simp
qed

lemma arrayT_Convert_Ok:
  assumes "Convert L (arrayT u) v = Ok c"
  shows "\<exists>cs. c = VSlice cs \<and> (\<forall>c\<in>set cs. \<exists>x. Convert L u x = Ok c)"
proof (cases v)
  case (VSlice vs)
  with assms obtain cs where "c = VSlice cs" and "arrayT_Convert_slice (Convert L u) vs = Ok cs"
    by (auto split: res.splits)
  with arrayT_Convert_slice_sources [of "Convert L u" vs cs] show ?thesis by blast
next
  case (VGenerator g)
  obtain r g' where l: "arrayT_Convert_loop (Convert L u) g [] = (r, g')"
    by (cases "arrayT_Convert_loop (Convert L u) g []")
  with assms VGenerator obtain cs where "c = VSlice cs" and "r = Ok cs"
    by (cases r; cases "Close g'")
      (auto simp: arrayT_Convert_Generator_def split: option.splits)
  with l arrayT_Convert_loop_sources [of "Convert L u" g "[]" cs g'] show ?thesis by auto
qed (use assms in simp_all)

lemma idem_array:
  assumes "idempotent_on L u"
  shows "idempotent_on L (arrayT u)"
  unfolding idempotent_on_def
proof (intro allI impI)
  fix v c assume "Convert L (arrayT u) v = Ok c"
  from arrayT_Convert_Ok [OF this] obtain cs where c: "c = VSlice cs"
    and src: "\<forall>c\<in>set cs. \<exists>x. Convert L u x = Ok c"
    by blast
  from array_loops_idem [OF assms src] obtain cs'
    where "arrayT_Convert_slice (Convert L u) cs = Ok cs'"
      and "arrayT_Compare_loop (Compare L u) cs' cs' = Ok 0"
    by blast
  with c show "(\<exists>c'. Convert L (arrayT u) c = Ok c') \<and> Compare L (arrayT u) c c = Ok 0"
    by simp
qed

lemma idempotent_all:
  assumes "cast_int64_integers L" and "cast_int64_floats L" and "cast_identity L"
    and "cast_uint64_unsigned L" and "json_marshals_bytes L"
  shows "idempotent_on L t"
proof (induction t)
  case (numberT q)
  from assms(1-4) show ?case by (rule idem_number)
next
  case (tupleT ts)
  then show ?case by (intro idem_tuple) simp
next
  case (arrayT u)
  then show ?case by (rule idem_array)
qed (simp_all add: assms idem_null idem_timestamp idem_date idem_text idem_boolean idem_blob
    idem_json)

text \<open>
  C6. For every type and every value, when \<^verbatim>\<open>Convert\<close> succeeds on the value, it
  succeeds on its result as well, and \<^verbatim>\<open>Compare\<close> of the result with itself is 0.
\<close>

theorem Convert_idempotent:
  assumes "cast_int64_integers L" and "cast_int64_floats L" and "cast_identity L"
    and "cast_uint64_unsigned L" and "json_marshals_bytes L"
    and "Convert L t v = Ok c"
  shows "(\<exists>c'. Convert L t c = Ok c') \<and> Compare L t c c = Ok 0"
  using idempotent_all [OF assms(1-5), of t] assms(6)
  by (simp add: idempotent_on_def)

theorem Convert_idempotent_witness:
  "cast_int64_integers stdlib \<and> cast_int64_floats stdlib \<and> cast_identity stdlib
   \<and> cast_uint64_unsigned stdlib \<and> json_marshals_bytes stdlib
   \<and> Convert stdlib (Tuple [Int64, Text]) (VSlice [VInt 1, VString ''a''])
       = Ok (VSlice [VInt64 1, VString ''a''])
   \<and> (\<exists>c'. Convert stdlib (Tuple [Int64, Text]) (VSlice [VInt64 1, VString ''a'']) = Ok c')
   \<and> Compare stdlib (Tuple [Int64, Text]) (VSlice [VInt64 1, VString ''a''])
        (VSlice [VInt64 1, VString ''a'']) = Ok 0"
proof -
  have conv: "Convert stdlib (Tuple [Int64, Text]) (VSlice [VInt 1, VString ''a''])
       = Ok (VSlice [VInt64 1, VString ''a''])"
    by code_simp
  from Convert_idempotent [OF stdlib_int64_integers stdlib_int64_floats stdlib_identity
      stdlib_uint64_unsigned stdlib_marshals_bytes conv]
    conv stdlib_int64_integers stdlib_int64_floats stdlib_identity
    stdlib_uint64_unsigned stdlib_marshals_bytes
  show ?thesis by simp
qed

end
